theory Spec2Isabelle
  imports Main
begin

section \<open>Types of the cluster-client library that utils/client.go uses\<close>

text \<open>
  The file \<^verbatim>\<open>utils/client.go\<close> holds a caching decorator over a discovery client
  (\<^verbatim>\<open>memcachedDiscoveryClient\<close>), a pool of dynamic clients (\<^verbatim>\<open>ClientPool\<close>) and
  the resolution of an object to its REST resource (\<^verbatim>\<open>ClientForResource\<close>).
  The types below stand for the library types the file handles. A Go pointer that the code
  compares with \<^verbatim>\<open>nil\<close> is an \<open>option\<close> (\<open>None\<close> is \<^verbatim>\<open>nil\<close>); a Go result pair
  \<^verbatim>\<open>(value, error)\<close> is a pair of options, since Go allows all four combinations.
\<close>

record GroupVersion =
  gvGroup :: string
  gvVersion :: string

record GroupVersionKind =
  gvkGroup :: string
  gvkVersion :: string
  gvkKind :: string

record GroupVersionResource =
  gvrGroup :: string
  gvrVersion :: string
  gvrResource :: string

record APIResource =
  Name :: string
  Namespaced :: bool
  Kind :: string

record APIResourceList =
  listGroupVersion :: string
  APIResources :: "APIResource list"

datatype APIGroupList = APIGroupList "string list"
datatype Document = Document string
datatype Resources = Resources string
datatype VersionInfo = VersionInfo string
datatype RESTInterface = RESTInterface string

datatype error =
  Error string
  | UnableToFetch GroupVersion error
  | UnableToHandle GroupVersionKind
  | ErrNotObject

type_synonym 'a result = "'a option \<times> error option"

text \<open>\<^verbatim>\<open>kind.GroupVersion()\<close>, \<^verbatim>\<open>gv.String()\<close> and \<^verbatim>\<open>gv.WithResource(name)\<close> of
  package \<^verbatim>\<open>schema\<close>.\<close>

definition GroupVersion_of :: "GroupVersionKind \<Rightarrow> GroupVersion" where
  "GroupVersion_of gvk = \<lparr>gvGroup = gvkGroup gvk, gvVersion = gvkVersion gvk\<rparr>"

definition GroupVersion_String :: "GroupVersion \<Rightarrow> string" where
  "GroupVersion_String gv =
     (if gvGroup gv = [] \<and> gvVersion gv = [] then []
      else if gvGroup gv = [] \<and> gvVersion gv = ''v1'' then gvVersion gv
      else if length (gvGroup gv) > 0 then gvGroup gv @ ''/'' @ gvVersion gv
      else gvVersion gv)"

definition WithResource :: "GroupVersion \<Rightarrow> string \<Rightarrow> GroupVersionResource" where
  "WithResource gv name = \<lparr>gvrGroup = gvGroup gv, gvrVersion = gvVersion gv, gvrResource = name\<rparr>"

section \<open>The underlying discovery client\<close>

text \<open>
  \<^verbatim>\<open>discovery.DiscoveryInterface\<close> is an interface: each method is a function of the hidden
  state \<open>'w\<close> of the implementation and of the cluster behind it, returning its result and
  the next state. The record \<open>backend\<close> pairs that state with a log of the calls that
  reached the underlying client, so that "without invoking the underlying client" can be
  stated.
\<close>

record 'w DiscoveryInterface =
  disco_RESTClient :: "'w \<Rightarrow> RESTInterface \<times> 'w"
  disco_ServerGroups :: "'w \<Rightarrow> APIGroupList result \<times> 'w"
  disco_ServerResourcesForGroupVersion :: "string \<Rightarrow> 'w \<Rightarrow> APIResourceList result \<times> 'w"
  disco_ServerResources :: "'w \<Rightarrow> (APIResourceList option list \<times> error option) \<times> 'w"
  disco_ServerPreferredResources :: "'w \<Rightarrow> (APIResourceList option list \<times> error option) \<times> 'w"
  disco_ServerPreferredNamespacedResources ::
    "'w \<Rightarrow> (APIResourceList option list \<times> error option) \<times> 'w"
  disco_ServerVersion :: "'w \<Rightarrow> VersionInfo result \<times> 'w"
  disco_OpenAPISchema :: "'w \<Rightarrow> Document result \<times> 'w"

datatype call =
  CallRESTClient
  | CallServerGroups
  | CallServerResourcesForGroupVersion string
  | CallServerResources
  | CallServerPreferredResources
  | CallServerPreferredNamespacedResources
  | CallServerVersion
  | CallOpenAPISchema

record 'w backend =
  world :: 'w
  calls :: "call list"

definition invoke :: "call \<Rightarrow> ('w \<Rightarrow> 'a \<times> 'w) \<Rightarrow> 'w backend \<Rightarrow> 'a \<times> 'w backend" where
  "invoke k m b =
     (case m (world b) of (r, w') \<Rightarrow> (r, \<lparr>world = w', calls = calls b @ [k]\<rparr>))"

section \<open>memcachedDiscoveryClient\<close>

text \<open>
  The struct of lines 36-43. The mutex \<^verbatim>\<open>lock\<close> has no field here: the model runs one
  operation at a time. A Go map of pointers can hold a key whose value is \<^verbatim>\<open>nil\<close>, so
  \<open>serverresources\<close> maps a key to an optional list. The type is unexported and built
  only by \<^verbatim>\<open>NewMemcachedDiscoveryClient\<close>, whose \<^verbatim>\<open>Invalidate\<close> call allocates both
  maps; the maps of the model are therefore never \<^verbatim>\<open>nil\<close>.
\<close>

record 'w memcachedDiscoveryClient =
  cl :: "'w DiscoveryInterface"
  servergroups :: "APIGroupList option"
  serverresources :: "string \<rightharpoonup> APIResourceList option"
  schemas :: "string \<rightharpoonup> Resources"
  schema :: "Document option"

definition Fresh :: "'w memcachedDiscoveryClient \<Rightarrow> bool" where
  "Fresh c = True"

definition Invalidate :: "'w memcachedDiscoveryClient \<Rightarrow> 'w memcachedDiscoveryClient" where
  "Invalidate c = c\<lparr>servergroups := None, serverresources := Map.empty, schemas := Map.empty\<rparr>"

definition NewMemcachedDiscoveryClient ::
  "'w DiscoveryInterface \<Rightarrow> 'w memcachedDiscoveryClient" where
  "NewMemcachedDiscoveryClient d =
     Invalidate \<lparr>cl = d, servergroups = None, serverresources = Map.empty,
                 schemas = Map.empty, schema = None\<rparr>"

definition RESTClient ::
  "'w memcachedDiscoveryClient \<Rightarrow> 'w backend
     \<Rightarrow> RESTInterface \<times> 'w memcachedDiscoveryClient \<times> 'w backend" where
  "RESTClient c b =
     (case invoke CallRESTClient (disco_RESTClient (cl c)) b of (r, b') \<Rightarrow> (r, c, b'))"

definition ServerGroups ::
  "'w memcachedDiscoveryClient \<Rightarrow> 'w backend
     \<Rightarrow> APIGroupList result \<times> 'w memcachedDiscoveryClient \<times> 'w backend" where
  "ServerGroups c b =
     (if servergroups c \<noteq> None then ((servergroups c, None), c, b)
      else (case invoke CallServerGroups (disco_ServerGroups (cl c)) b of
              ((v, err), b') \<Rightarrow> ((v, err), c\<lparr>servergroups := v\<rparr>, b')))"

text \<open>\<^verbatim>\<open>c.serverresources[groupVersion]\<close> reads \<^verbatim>\<open>nil\<close> for a key that is absent.\<close>

definition stored :: "'w memcachedDiscoveryClient \<Rightarrow> string \<Rightarrow> APIResourceList option" where
  "stored c groupVersion =
     (case serverresources c groupVersion of None \<Rightarrow> None | Some v \<Rightarrow> v)"

definition ServerResourcesForGroupVersion ::
  "'w memcachedDiscoveryClient \<Rightarrow> string \<Rightarrow> 'w backend
     \<Rightarrow> APIResourceList result \<times> 'w memcachedDiscoveryClient \<times> 'w backend" where
  "ServerResourcesForGroupVersion c groupVersion b =
     (case stored c groupVersion of
        Some v \<Rightarrow> ((Some v, None), c, b)
      | None \<Rightarrow>
          (case invoke (CallServerResourcesForGroupVersion groupVersion)
                  (disco_ServerResourcesForGroupVersion (cl c) groupVersion) b of
             ((v, err), b') \<Rightarrow>
               ((v, err), c\<lparr>serverresources := (serverresources c)(groupVersion \<mapsto> v)\<rparr>, b')))"

definition ServerResources ::
  "'w memcachedDiscoveryClient \<Rightarrow> 'w backend
     \<Rightarrow> (APIResourceList option list \<times> error option) \<times> 'w memcachedDiscoveryClient \<times> 'w backend"
  where
  "ServerResources c b =
     (case invoke CallServerResources (disco_ServerResources (cl c)) b of
        (r, b') \<Rightarrow> (r, c, b'))"

definition ServerPreferredResources ::
  "'w memcachedDiscoveryClient \<Rightarrow> 'w backend
     \<Rightarrow> (APIResourceList option list \<times> error option) \<times> 'w memcachedDiscoveryClient \<times> 'w backend"
  where
  "ServerPreferredResources c b =
     (case invoke CallServerPreferredResources (disco_ServerPreferredResources (cl c)) b of
        (r, b') \<Rightarrow> (r, c, b'))"

definition ServerPreferredNamespacedResources ::
  "'w memcachedDiscoveryClient \<Rightarrow> 'w backend
     \<Rightarrow> (APIResourceList option list \<times> error option) \<times> 'w memcachedDiscoveryClient \<times> 'w backend"
  where
  "ServerPreferredNamespacedResources c b =
     (case invoke CallServerPreferredNamespacedResources
             (disco_ServerPreferredNamespacedResources (cl c)) b of
        (r, b') \<Rightarrow> (r, c, b'))"

definition ServerVersion ::
  "'w memcachedDiscoveryClient \<Rightarrow> 'w backend
     \<Rightarrow> VersionInfo result \<times> 'w memcachedDiscoveryClient \<times> 'w backend" where
  "ServerVersion c b =
     (case invoke CallServerVersion (disco_ServerVersion (cl c)) b of (r, b') \<Rightarrow> (r, c, b'))"

definition OpenAPISchema ::
  "'w memcachedDiscoveryClient \<Rightarrow> 'w backend
     \<Rightarrow> Document result \<times> 'w memcachedDiscoveryClient \<times> 'w backend" where
  "OpenAPISchema c b =
     (if schema c \<noteq> None then ((schema c, None), c, b)
      else (case invoke CallOpenAPISchema (disco_OpenAPISchema (cl c)) b of
              ((s, err), b') \<Rightarrow>
                (if err \<noteq> None then ((None, err), c, b')
                 else ((s, None), c\<lparr>schema := s\<rparr>, b'))))"

subsection \<open>A caller: any sequence of operations on one client\<close>

datatype op =
  OpFresh
  | OpInvalidate
  | OpRESTClient
  | OpServerGroups
  | OpServerResourcesForGroupVersion string
  | OpServerResources
  | OpServerPreferredResources
  | OpServerPreferredNamespacedResources
  | OpServerVersion
  | OpOpenAPISchema

fun step ::
  "op \<Rightarrow> 'w memcachedDiscoveryClient \<times> 'w backend
     \<Rightarrow> 'w memcachedDiscoveryClient \<times> 'w backend" where
  "step OpFresh (c, b) = (c, b)"
| "step OpInvalidate (c, b) = (Invalidate c, b)"
| "step OpRESTClient (c, b) = snd (RESTClient c b)"
| "step OpServerGroups (c, b) = snd (ServerGroups c b)"
| "step (OpServerResourcesForGroupVersion gv) (c, b) = snd (ServerResourcesForGroupVersion c gv b)"
| "step OpServerResources (c, b) = snd (ServerResources c b)"
| "step OpServerPreferredResources (c, b) = snd (ServerPreferredResources c b)"
| "step OpServerPreferredNamespacedResources (c, b) = snd (ServerPreferredNamespacedResources c b)"
| "step OpServerVersion (c, b) = snd (ServerVersion c b)"
| "step OpOpenAPISchema (c, b) = snd (OpenAPISchema c b)"

fun run ::
  "op list \<Rightarrow> 'w memcachedDiscoveryClient \<times> 'w backend
     \<Rightarrow> 'w memcachedDiscoveryClient \<times> 'w backend" where
  "run [] s = s"
| "run (x # xs) s = run xs (step x s)"

section \<open>ClientPool\<close>

text \<open>
  \<^verbatim>\<open>rest.Config\<close> is handled through pointers, and \<^verbatim>\<open>ClientPool\<close> keeps one. Its
  field \<^verbatim>\<open>GroupVersion\<close> is itself a pointer (line 153 assigns \<^verbatim>\<open>&gv\<close> to it). The
  heap therefore has two lists of cells, one of configs and one of group versions; a pointer
  is an index into its list and allocation appends a cell. Copying a config
  (\<^verbatim>\<open>configCopy := *config\<close>) copies the cell and with it the pointer in the field
  \<open>GroupVersion\<close>, not the group version that the pointer names: the copy is shallow.
  Reading through a config pointer that names no cell (Go's \<^verbatim>\<open>nil\<close>) panics. \<open>Host\<close>
  stands for the fields of the config that the code does not touch.
\<close>

record Config =
  Host :: string
  APIPath :: string
  GroupVersion :: "nat option"

record heap =
  configs :: "Config list"
  groupVersions :: "GroupVersion list"

datatype 'a go = Panic | Returned 'a

record ClientPool =
  config :: nat
  apiPathResolverFunc :: "GroupVersionKind \<Rightarrow> string"

text \<open>What a reader of a config finds behind its \<open>GroupVersion\<close> pointer.\<close>

definition deref_GroupVersion :: "heap \<Rightarrow> nat option \<Rightarrow> GroupVersion option" where
  "deref_GroupVersion h p =
     (case p of
        None \<Rightarrow> None
      | Some g \<Rightarrow> (if g < length (groupVersions h) then Some (groupVersions h ! g) else None))"


text \<open>\<open>NewForConfig\<close> is \<^verbatim>\<open>dynamic.NewForConfig\<close> of the client library, a parameter of the
  model: a function of the config it is given and of the group version that the config
  points to. The local \<^verbatim>\<open>gv\<close> has its address taken, so it is a cell of the heap.\<close>

definition ClientForGroupVersionKind ::
  "(Config \<Rightarrow> GroupVersion option \<Rightarrow> 'c result) \<Rightarrow> ClientPool \<Rightarrow> GroupVersionKind \<Rightarrow> heap
     \<Rightarrow> ('c result \<times> heap) go" where
  "ClientForGroupVersionKind NewForConfig p kind h =
     (let gv = length (groupVersions h);
          h0 = h\<lparr>groupVersions := groupVersions h @ [GroupVersion_of kind]\<rparr>
      in if config p < length (configs h0) then
        (let a = length (configs h0);
             h1 = h0\<lparr>configs := configs h0 @ [configs h0 ! config p]\<rparr>;
             h2 = h1\<lparr>configs :=
                       (configs h1)[a := (configs h1 ! a)\<lparr>APIPath := apiPathResolverFunc p kind\<rparr>]\<rparr>;
             h3 = h2\<lparr>configs := (configs h2)[a := (configs h2 ! a)\<lparr>GroupVersion := Some gv\<rparr>]\<rparr>
         in (case NewForConfig (configs h3 ! a)
                    (deref_GroupVersion h3 (GroupVersion (configs h3 ! a))) of
               (client, Some err) \<Rightarrow> Returned ((None, Some err), h3)
             | (client, None) \<Rightarrow> Returned ((client, None), h3)))
      else Panic)"


section \<open>ClientForResource\<close>

text \<open>\<^verbatim>\<open>strings.Index\<close>, \<^verbatim>\<open>strings.Count\<close>, \<^verbatim>\<open>strings.SplitN\<close> and
  \<^verbatim>\<open>strings.Split\<close> of the Go library, at a separator of one byte (the code passes
  \<^verbatim>\<open>"/"\<close>). \<open>genSplit\<close> follows the library's loop: at most \<open>n - 1\<close> cuts, the rest
  of the string last.\<close>

definition Index :: "string \<Rightarrow> char \<Rightarrow> int" where
  "Index s sep = (if sep \<in> set s then int (length (takeWhile (\<lambda>x. x \<noteq> sep) s)) else - 1)"

definition Count :: "string \<Rightarrow> char \<Rightarrow> int" where
  "Count s sep = int (length (filter (\<lambda>x. x = sep) s))"

fun genSplit_loop :: "nat \<Rightarrow> string \<Rightarrow> char \<Rightarrow> string list" where
  "genSplit_loop 0 s sep = [s]"
| "genSplit_loop (Suc k) s sep =
     (let m = Index s sep in
      if m < 0 then [s]
      else take (nat m) s # genSplit_loop k (drop (nat m + 1) s) sep)"

definition genSplit :: "string \<Rightarrow> char \<Rightarrow> int \<Rightarrow> string list" where
  "genSplit s sep n =
     (if n = 0 then []
      else (let n1 = (if n < 0 then Count s sep + 1 else n);
                n2 = (if n1 > int (length s) + 1 then int (length s) + 1 else n1)
            in genSplit_loop (nat (n2 - 1)) s sep))"

definition SplitN :: "string \<Rightarrow> char \<Rightarrow> int \<Rightarrow> string list" where
  "SplitN s sep n = genSplit s sep n"

definition Split :: "string \<Rightarrow> char \<Rightarrow> string list" where
  "Split s sep = genSplit s sep (- 1)"

text \<open>The segments of a string between separators, the way the specification words it:
  the text before the first separator, then the segments of what follows it.\<close>

fun segments :: "char \<Rightarrow> string \<Rightarrow> string list" where
  "segments sep [] = [[]]"
| "segments sep (x # xs) =
     (if x = sep then [] # segments sep xs
      else (case segments sep xs of
              [] \<Rightarrow> [[x]]
            | seg # rest \<Rightarrow> (x # seg) # rest))"

text \<open>A \<^verbatim>\<open>runtime.Object\<close>: its kind, and its metadata when it has an accessor
  (\<^verbatim>\<open>meta.Accessor\<close> fails on an object that has none).\<close>

record ObjectMeta =
  metaName :: string
  metaNamespace :: string

record RuntimeObject =
  objKind :: GroupVersionKind
  objMeta :: "ObjectMeta option"

definition Accessor :: "RuntimeObject \<Rightarrow> ObjectMeta result" where
  "Accessor obj =
     (case objMeta obj of None \<Rightarrow> (None, Some ErrNotObject) | Some m \<Rightarrow> (Some m, None))"

text \<open>\<^verbatim>\<open>client.Resource(gvr).Namespace(namespace)\<close> of the dynamic client: the resource
  client is the client it was made from, the resource and the namespace.\<close>

record 'c ResourceClient =
  rcClient :: 'c
  rcResource :: GroupVersionResource
  rcNamespace :: string

text \<open>The loop of lines 205-210: the first resource of the list with the kind asked for.\<close>

fun firstOfKind :: "APIResource list \<Rightarrow> GroupVersionKind \<Rightarrow> APIResource result" where
  "firstOfKind [] gvk = (None, Some (UnableToHandle gvk))"
| "firstOfKind (r # rs) gvk =
     (if Kind r = gvkKind gvk then (Some r, None) else firstOfKind rs gvk)"

definition serverResourceForGroupVersionKind ::
  "'w DiscoveryInterface \<Rightarrow> GroupVersionKind \<Rightarrow> 'w backend
     \<Rightarrow> (APIResource result \<times> 'w backend) go" where
  "serverResourceForGroupVersionKind disco gvk b =
     (let gvs = GroupVersion_String (GroupVersion_of gvk) in
      case invoke (CallServerResourcesForGroupVersion gvs)
             (disco_ServerResourcesForGroupVersion disco gvs) b of
        ((resources, Some err), b') \<Rightarrow>
          Returned ((None, Some (UnableToFetch (GroupVersion_of gvk) err)), b')
      | ((None, None), b') \<Rightarrow> Panic
      | ((Some rl, None), b') \<Rightarrow> Returned (firstOfKind (APIResources rl) gvk, b'))"

text \<open>Lines 165-197. The two \<^verbatim>\<open>log.Debugf\<close> calls only write to the log and have no
  counterpart here.\<close>

definition ClientForResource ::
  "(Config \<Rightarrow> GroupVersion option \<Rightarrow> 'c result) \<Rightarrow> ClientPool \<Rightarrow> 'w DiscoveryInterface
     \<Rightarrow> RuntimeObject \<Rightarrow> string \<Rightarrow> heap \<Rightarrow> 'w backend
     \<Rightarrow> (('c ResourceClient option \<times> string list option \<times> error option)
          \<times> heap \<times> 'w backend) go" where
  "ClientForResource NewForConfig pool disco obj defNs h b =
     (let gvk = objKind obj in
      case ClientForGroupVersionKind NewForConfig pool gvk h of
        Panic \<Rightarrow> Panic
      | Returned ((client, Some err), h') \<Rightarrow> Returned ((None, None, Some err), h', b)
      | Returned ((client, None), h') \<Rightarrow>
          (case serverResourceForGroupVersionKind disco gvk b of
             Panic \<Rightarrow> Panic
           | Returned ((resource, Some err), b') \<Rightarrow> Returned ((None, None, Some err), h', b')
           | Returned ((resource, None), b') \<Rightarrow>
               (case Accessor obj of
                  (m, Some err) \<Rightarrow> Returned ((None, None, Some err), h', b')
                | (None, None) \<Rightarrow> Panic
                | (Some m, None) \<Rightarrow>
                    (let namespace = (if metaNamespace m = [] then defNs else metaNamespace m) in
                     case resource of
                       None \<Rightarrow> Panic
                     | Some r \<Rightarrow>
                         (let resourceTokens = SplitN (Name r) CHR ''/'' 2 in
                          case resourceTokens of
                            [] \<Rightarrow> Panic
                          | name # _ \<Rightarrow>
                              (let subresources =
                                     (if length resourceTokens > 1
                                      then Some (Split (resourceTokens ! 1) CHR ''/'')
                                      else None)
                               in case client of
                                    None \<Rightarrow> Panic
                                  | Some cli \<Rightarrow>
                                      Returned
                                        ((Some \<lparr>rcClient = cli,
                                                rcResource = WithResource (GroupVersion_of gvk) name,
                                                rcNamespace = namespace\<rparr>,
                                          subresources, None), h', b')))))))"

section \<open>Example values\<close>

text \<open>
  A discovery client whose state counts the calls it has answered: it fails while the count
  is 0 and answers afterwards. The resource list puts a subresource of deployments first, so
  that the first resource of kind Deployment has a slash in its name. The heap holds the
  caller's config in cell 0 and the pool's copy in cell 1; both point to the one group
  version cell that the caller allocated. The stand-in for \<^verbatim>\<open>dynamic.NewForConfig\<close>
  rejects a host with a path, as the library does.
\<close>

definition example_resources :: "APIResource list" where
  "example_resources =
     [\<lparr>Name = ''pods'', Namespaced = True, Kind = ''Pod''\<rparr>,
      \<lparr>Name = ''deployments/status'', Namespaced = True, Kind = ''Deployment''\<rparr>,
      \<lparr>Name = ''deployments'', Namespaced = True, Kind = ''Deployment''\<rparr>]"

definition example_disco :: "nat DiscoveryInterface" where
  "example_disco =
     \<lparr>disco_RESTClient = (\<lambda>w. (RESTInterface ''rest'', w)),
      disco_ServerGroups =
        (\<lambda>w. (if w = 0 then (None, Some (Error ''unavailable''))
              else (Some (APIGroupList [''apps'']), None), Suc w)),
      disco_ServerResourcesForGroupVersion =
        (\<lambda>gv w. (if w = 0 then (None, Some (Error ''unavailable''))
                 else (Some \<lparr>listGroupVersion = gv, APIResources = example_resources\<rparr>, None),
                 Suc w)),
      disco_ServerResources = (\<lambda>w. (([], None), Suc w)),
      disco_ServerPreferredResources = (\<lambda>w. (([], None), Suc w)),
      disco_ServerPreferredNamespacedResources = (\<lambda>w. (([], None), Suc w)),
      disco_ServerVersion = (\<lambda>w. ((Some (VersionInfo ''v1.9.0''), None), Suc w)),
      disco_OpenAPISchema =
        (\<lambda>w. (if w = 0 then (None, Some (Error ''unavailable''))
              else (Some (Document ''swagger''), None), Suc w))\<rparr>"

definition example_backend :: "nat \<Rightarrow> nat backend" where
  "example_backend w = \<lparr>world = w, calls = []\<rparr>"

definition example_config :: Config where
  "example_config = \<lparr>Host = ''https://cluster.example'', APIPath = [], GroupVersion = Some 0\<rparr>"

definition example_resolver :: "GroupVersionKind \<Rightarrow> string" where
  "example_resolver kind = (if gvkGroup kind = [] then ''/api'' else ''/apis'')"

definition example_NewForConfig ::
  "Config \<Rightarrow> GroupVersion option \<Rightarrow> (Config \<times> GroupVersion option) result" where
  "example_NewForConfig cfg gv =
     (if Host cfg = ''bad/host''
      then (None, Some (Error ''host must be a URL or a host:port pair: bad/host''))
      else (Some (cfg, gv), None))"

definition example_kind :: GroupVersionKind where
  "example_kind = \<lparr>gvkGroup = ''apps'', gvkVersion = ''v1'', gvkKind = ''Deployment''\<rparr>"

definition example_pool :: ClientPool where
  "example_pool = \<lparr>config = 1, apiPathResolverFunc = example_resolver\<rparr>"

definition example_heap :: heap where
  "example_heap =
     \<lparr>configs = [example_config, example_config],
      groupVersions = [\<lparr>gvGroup = [], gvVersion = ''v1''\<rparr>]\<rparr>"

definition example_client_config :: Config where
  "example_client_config =
     \<lparr>Host = ''https://cluster.example'', APIPath = ''/apis'', GroupVersion = Some 1\<rparr>"

definition example_client :: "Config \<times> GroupVersion option" where
  "example_client = (example_client_config, Some \<lparr>gvGroup = ''apps'', gvVersion = ''v1''\<rparr>)"

definition example_heap_after :: heap where
  "example_heap_after =
     \<lparr>configs = [example_config, example_config, example_client_config],
      groupVersions = [\<lparr>gvGroup = [], gvVersion = ''v1''\<rparr>,
                       \<lparr>gvGroup = ''apps'', gvVersion = ''v1''\<rparr>]\<rparr>"

definition example_bad_config :: Config where
  "example_bad_config = \<lparr>Host = ''bad/host'', APIPath = [], GroupVersion = Some 0\<rparr>"

definition example_bad_pool :: ClientPool where
  "example_bad_pool = \<lparr>config = 0, apiPathResolverFunc = example_resolver\<rparr>"

definition example_bad_heap :: heap where
  "example_bad_heap =
     \<lparr>configs = [example_bad_config], groupVersions = [\<lparr>gvGroup = [], gvVersion = ''v1''\<rparr>]\<rparr>"

definition example_bad_heap_after :: heap where
  "example_bad_heap_after =
     \<lparr>configs = [example_bad_config,
                 \<lparr>Host = ''bad/host'', APIPath = ''/apis'', GroupVersion = Some 1\<rparr>],
      groupVersions = [\<lparr>gvGroup = [], gvVersion = ''v1''\<rparr>,
                       \<lparr>gvGroup = ''apps'', gvVersion = ''v1''\<rparr>]\<rparr>"

definition example_object :: RuntimeObject where
  "example_object =
     \<lparr>objKind = example_kind, objMeta = Some \<lparr>metaName = ''web'', metaNamespace = []\<rparr>\<rparr>"

definition example_object_without_meta :: RuntimeObject where
  "example_object_without_meta = \<lparr>objKind = example_kind, objMeta = None\<rparr>"

definition example_disco_nil :: "nat DiscoveryInterface" where
  "example_disco_nil =
     example_disco\<lparr>disco_ServerResourcesForGroupVersion := (\<lambda>gv w. ((None, None), Suc w))\<rparr>"

section \<open>Invariants of the cache\<close>

lemmas op_defs = RESTClient_def ServerGroups_def ServerResourcesForGroupVersion_def
  ServerResources_def ServerPreferredResources_def ServerPreferredNamespacedResources_def
  ServerVersion_def OpenAPISchema_def Invalidate_def invoke_def

lemma step_cl: "cl (fst (step x s)) = cl (fst s)"
  by (cases s; cases x) (auto simp: op_defs split: prod.splits option.splits)

lemma run_cl: "cl (fst (run xs s)) = cl (fst s)"
  by (induction xs arbitrary: s) (simp_all add: step_cl)

lemma step_servergroups_Some:
  "OpInvalidate \<noteq> x \<Longrightarrow> servergroups (fst s) = Some g \<Longrightarrow> servergroups (fst (step x s)) = Some g"
  by (cases s; cases x) (auto simp: op_defs split: prod.splits option.splits)

lemma run_servergroups_Some:
  "OpInvalidate \<notin> set xs \<Longrightarrow> servergroups (fst s) = Some g \<Longrightarrow> servergroups (fst (run xs s)) = Some g"
  by (induction xs arbitrary: s) (simp_all add: step_servergroups_Some)

lemma step_servergroups_None:
  "OpServerGroups \<noteq> x \<Longrightarrow> servergroups (fst s) = None \<Longrightarrow> servergroups (fst (step x s)) = None"
  by (cases s; cases x) (auto simp: op_defs split: prod.splits option.splits)

lemma run_servergroups_None:
  "OpServerGroups \<notin> set xs \<Longrightarrow> servergroups (fst s) = None \<Longrightarrow> servergroups (fst (run xs s)) = None"
  by (induction xs arbitrary: s) (simp_all add: step_servergroups_None)

lemma step_schema_Some:
  "schema (fst s) = Some d \<Longrightarrow> schema (fst (step x s)) = Some d"
  by (cases s; cases x) (auto simp: op_defs split: prod.splits option.splits)

lemma run_schema_Some:
  "schema (fst s) = Some d \<Longrightarrow> schema (fst (run xs s)) = Some d"
  by (induction xs arbitrary: s) (simp_all add: step_schema_Some)

lemma step_schema_None:
  "OpOpenAPISchema \<noteq> x \<Longrightarrow> schema (fst s) = None \<Longrightarrow> schema (fst (step x s)) = None"
  by (cases s; cases x) (auto simp: op_defs split: prod.splits option.splits)

lemma run_schema_None:
  "OpOpenAPISchema \<notin> set xs \<Longrightarrow> schema (fst s) = None \<Longrightarrow> schema (fst (run xs s)) = None"
  by (induction xs arbitrary: s) (simp_all add: step_schema_None)

lemma step_stored_Some:
  "OpInvalidate \<noteq> x \<Longrightarrow> stored (fst s) gv = Some rl \<Longrightarrow> stored (fst (step x s)) gv = Some rl"
  by (cases s; cases x) (auto simp: op_defs stored_def split: prod.splits option.splits)

lemma run_stored_Some:
  "OpInvalidate \<notin> set xs \<Longrightarrow> stored (fst s) gv = Some rl \<Longrightarrow> stored (fst (run xs s)) gv = Some rl"
  by (induction xs arbitrary: s) (simp_all add: step_stored_Some)

lemma step_stored_None:
  "OpServerResourcesForGroupVersion gv \<noteq> x \<Longrightarrow> stored (fst s) gv = None
     \<Longrightarrow> stored (fst (step x s)) gv = None"
  by (cases s; cases x) (auto simp: op_defs stored_def split: prod.splits option.splits)

lemma run_stored_None:
  "OpServerResourcesForGroupVersion gv \<notin> set xs \<Longrightarrow> stored (fst s) gv = None
     \<Longrightarrow> stored (fst (run xs s)) gv = None"
  by (induction xs arbitrary: s) (simp_all add: step_stored_None)

lemma ServerGroups_cached:
  "servergroups c = Some g \<Longrightarrow> ServerGroups c b = ((Some g, None), c, b)"
  by (simp add: ServerGroups_def)

lemma ServerGroups_success_caches:
  "ServerGroups c b = ((Some g, None), c', b') \<Longrightarrow> servergroups c' = Some g"
  by (auto simp: ServerGroups_def invoke_def split: if_splits prod.splits)

lemma OpenAPISchema_cached:
  "schema c = Some d \<Longrightarrow> OpenAPISchema c b = ((Some d, None), c, b)"
  by (simp add: OpenAPISchema_def)

lemma OpenAPISchema_success_caches:
  "OpenAPISchema c b = ((Some d, None), c', b') \<Longrightarrow> schema c' = Some d"
  by (auto simp: OpenAPISchema_def invoke_def split: if_splits prod.splits)

lemma ServerResourcesForGroupVersion_cached:
  "stored c gv = Some rl \<Longrightarrow> ServerResourcesForGroupVersion c gv b = ((Some rl, None), c, b)"
  by (simp add: ServerResourcesForGroupVersion_def)

lemma ServerResourcesForGroupVersion_miss:
  "stored c gv = None \<Longrightarrow> disco_ServerResourcesForGroupVersion (cl c) gv (world b) = ((v, err), w')
   \<Longrightarrow> ServerResourcesForGroupVersion c gv b =
         ((v, err), c\<lparr>serverresources := (serverresources c)(gv \<mapsto> v)\<rparr>,
          \<lparr>world = w', calls = calls b @ [CallServerResourcesForGroupVersion gv]\<rparr>)"
  by (simp add: ServerResourcesForGroupVersion_def invoke_def)

lemma ServerGroups_miss:
  "servergroups c = None \<Longrightarrow> disco_ServerGroups (cl c) (world b) = ((v, err), w')
   \<Longrightarrow> ServerGroups c b =
         ((v, err), c\<lparr>servergroups := v\<rparr>, \<lparr>world = w', calls = calls b @ [CallServerGroups]\<rparr>)"
  by (simp add: ServerGroups_def invoke_def)

lemma OpenAPISchema_miss:
  "schema c = None \<Longrightarrow> disco_OpenAPISchema (cl c) (world b) = ((v, err), w')
   \<Longrightarrow> OpenAPISchema c b =
         (if err \<noteq> None then ((None, err), c, \<lparr>world = w', calls = calls b @ [CallOpenAPISchema]\<rparr>)
          else ((v, None), c\<lparr>schema := v\<rparr>, \<lparr>world = w', calls = calls b @ [CallOpenAPISchema]\<rparr>))"
  by (simp add: OpenAPISchema_def invoke_def)

lemma stored_New: "stored (NewMemcachedDiscoveryClient d) gv = None"
  by (simp add: stored_def NewMemcachedDiscoveryClient_def Invalidate_def)

lemma stored_Invalidate: "stored (Invalidate c) gv = None"
  by (simp add: stored_def Invalidate_def)

lemma cl_New: "cl (NewMemcachedDiscoveryClient d) = d"
  by (simp add: NewMemcachedDiscoveryClient_def Invalidate_def)

lemma ServerResourcesForGroupVersion_cl:
  "cl (fst (snd (ServerResourcesForGroupVersion c gv b))) = cl c"
  using step_cl [of "OpServerResourcesForGroupVersion gv" "(c, b)"] by simp

lemmas example_defs = example_disco_def example_backend_def example_resources_def
  NewMemcachedDiscoveryClient_def stored_def

section \<open>Splitting a resource name\<close>

lemma segments_no_sep: "sep \<notin> set s \<Longrightarrow> segments sep s = [s]"
  by (induction s) auto

lemma segments_cut:
  "sep \<notin> set a \<Longrightarrow> segments sep (a @ sep # b) = a # segments sep b"
  by (induction a) auto

lemma segments_not_Nil: "segments sep s \<noteq> []"
  by (induction s) (auto split: list.splits)

lemma split_at_first:
  "sep \<in> set s \<Longrightarrow>
     s = takeWhile (\<lambda>x. x \<noteq> sep) s @ sep # tl (dropWhile (\<lambda>x. x \<noteq> sep) s)"
  by (induction s) auto

lemma segments_first:
  "sep \<in> set s \<Longrightarrow>
     segments sep s =
       takeWhile (\<lambda>x. x \<noteq> sep) s # segments sep (tl (dropWhile (\<lambda>x. x \<noteq> sep) s))"
proof -
  assume m: "sep \<in> set s"
  have "sep \<notin> set (takeWhile (\<lambda>x. x \<noteq> sep) s)"
    by (auto dest: set_takeWhileD)
  then have "segments sep (takeWhile (\<lambda>x. x \<noteq> sep) s @ sep # tl (dropWhile (\<lambda>x. x \<noteq> sep) s))
      = takeWhile (\<lambda>x. x \<noteq> sep) s # segments sep (tl (dropWhile (\<lambda>x. x \<noteq> sep) s))"
    by (rule segments_cut)
  with split_at_first [OF m] show ?thesis by simp
qed

lemma Index_absent: "sep \<notin> set s \<Longrightarrow> Index s sep < 0"
  by (simp add: Index_def)

lemma Index_present:
  "sep \<in> set s \<Longrightarrow> Index s sep = int (length (takeWhile (\<lambda>x. x \<noteq> sep) s))"
  by (simp add: Index_def)

lemma take_Index:
  "sep \<in> set s \<Longrightarrow> take (nat (Index s sep)) s = takeWhile (\<lambda>x. x \<noteq> sep) s"
  by (simp only: Index_present nat_int takeWhile_eq_take [symmetric])

lemma drop_Index:
  "sep \<in> set s \<Longrightarrow> drop (nat (Index s sep) + 1) s = tl (dropWhile (\<lambda>x. x \<noteq> sep) s)"
  by (simp only: Index_present nat_int dropWhile_eq_drop drop_Suc tl_drop Suc_eq_plus1 [symmetric])

lemma genSplit_loop_step:
  "genSplit_loop (Suc k) s sep =
     (if sep \<in> set s
      then takeWhile (\<lambda>x. x \<noteq> sep) s # genSplit_loop k (tl (dropWhile (\<lambda>x. x \<noteq> sep) s)) sep
      else [s])"
proof (cases "sep \<in> set s")
  case True
  then have "\<not> Index s sep < 0" by (simp add: Index_present)
  with True show ?thesis
    using take_Index [OF True] drop_Index [OF True] by (simp add: Let_def)
next
  case False
  then show ?thesis by (simp add: Index_absent Let_def)
qed

lemma count_tail:
  "sep \<in> set s \<Longrightarrow>
     length (filter (\<lambda>x. x = sep) (tl (dropWhile (\<lambda>x. x \<noteq> sep) s)))
       < length (filter (\<lambda>x. x = sep) s)"
  by (induction s) auto

lemma genSplit_loop_segments:
  "length (filter (\<lambda>x. x = sep) s) \<le> k \<Longrightarrow> genSplit_loop k s sep = segments sep s"
proof (induction k arbitrary: s)
  case 0
  then have "sep \<notin> set s"
    by (auto simp: filter_empty_conv)
  then show ?case by (simp add: segments_no_sep)
next
  case (Suc k)
  show ?case
  proof (cases "sep \<in> set s")
    case True
    with Suc.prems have "length (filter (\<lambda>x. x = sep) (tl (dropWhile (\<lambda>x. x \<noteq> sep) s))) \<le> k"
      using count_tail [OF True] by simp
    then have "genSplit_loop k (tl (dropWhile (\<lambda>x. x \<noteq> sep) s)) sep
        = segments sep (tl (dropWhile (\<lambda>x. x \<noteq> sep) s))"
      by (rule Suc.IH)
    with True show ?thesis
      by (simp only: genSplit_loop_step segments_first if_True)
  next
    case False
    then show ?thesis
      by (simp only: genSplit_loop_step segments_no_sep if_False simp_thms)
  qed
qed

lemma Split_segments: "Split s sep = segments sep s"
proof -
  have "length (filter (\<lambda>x. x = sep) s) \<le> length s"
    by (rule length_filter_le)
  then have "\<not> int (length s) + 1 < int (length (filter (\<lambda>x. x = sep) s)) + 1"
    by linarith
  then have "genSplit s sep (- 1) = genSplit_loop (length (filter (\<lambda>x. x = sep) s)) s sep"
    by (simp add: genSplit_def Count_def Let_def)
  then show ?thesis
    by (simp add: Split_def genSplit_loop_segments)
qed

lemma SplitN_2:
  "SplitN s sep 2 =
     (if sep \<in> set s
      then [takeWhile (\<lambda>x. x \<noteq> sep) s, tl (dropWhile (\<lambda>x. x \<noteq> sep) s)]
      else [s])"
proof (cases s)
  case Nil
  then show ?thesis by (simp add: SplitN_def genSplit_def)
next
  case (Cons x xs)
  then have "genSplit s sep 2 = genSplit_loop (Suc 0) s sep"
    by (simp add: genSplit_def Let_def)
  then show ?thesis
    by (simp only: SplitN_def genSplit_loop_step genSplit_loop.simps)
qed

lemma takeWhile_no_sep: "sep \<notin> set s \<Longrightarrow> takeWhile (\<lambda>x. x \<noteq> sep) s = s"
  by (induction s) auto

lemma resource_name_tokens:
  "SplitN name CHR ''/'' 2 = takeWhile (\<lambda>x. x \<noteq> CHR ''/'') name #
     (if CHR ''/'' \<in> set name then [tl (dropWhile (\<lambda>x. x \<noteq> CHR ''/'') name)] else [])"
  by (simp add: SplitN_2 takeWhile_no_sep)

section \<open>Facts about the pool and the resource lookup\<close>

lemma ClientForGroupVersionKind_valid:
  "config p < length (configs h) \<Longrightarrow>
     ClientForGroupVersionKind NewForConfig p kind h =
       Returned
         ((case NewForConfig
                 ((configs h ! config p)\<lparr>APIPath := apiPathResolverFunc p kind,
                                          GroupVersion := Some (length (groupVersions h))\<rparr>)
                 (Some (GroupVersion_of kind)) of
             (client, Some err) \<Rightarrow> (None, Some err)
           | (client, None) \<Rightarrow> (client, None)),
          \<lparr>configs = configs h @
             [(configs h ! config p)\<lparr>APIPath := apiPathResolverFunc p kind,
                                      GroupVersion := Some (length (groupVersions h))\<rparr>],
           groupVersions = groupVersions h @ [GroupVersion_of kind]\<rparr>)"
  by (simp add: ClientForGroupVersionKind_def deref_GroupVersion_def Let_def nth_append
      split: prod.splits option.splits)




lemma ClientForResource_construction_fails:
  "ClientForGroupVersionKind NewForConfig pool (objKind obj) h = Returned ((client, Some err), h')
   \<Longrightarrow> ClientForResource NewForConfig pool disco obj defNs h b
         = Returned ((None, None, Some err), h', b)"
  by (simp add: ClientForResource_def Let_def)

lemma ClientForResource_accessor_fails:
  "ClientForGroupVersionKind NewForConfig pool (objKind obj) h = Returned ((client, None), h')
   \<Longrightarrow> serverResourceForGroupVersionKind disco (objKind obj) b = Returned ((resource, None), b')
   \<Longrightarrow> Accessor obj = (m, Some err)
   \<Longrightarrow> ClientForResource NewForConfig pool disco obj defNs h b
         = Returned ((None, None, Some err), h', b')"
  by (simp add: ClientForResource_def Let_def split: option.splits)

lemma firstOfKind_none:
  "\<forall>x\<in>set rs. Kind x \<noteq> gvkKind gvk \<Longrightarrow> firstOfKind rs gvk = (None, Some (UnableToHandle gvk))"
  by (induction rs) auto

lemma firstOfKind_first:
  "\<forall>y\<in>set pre. Kind y \<noteq> gvkKind gvk \<Longrightarrow> Kind x = gvkKind gvk
     \<Longrightarrow> firstOfKind (pre @ x # post) gvk = (Some x, None)"
  by (induction pre) auto

lemma firstOfKind_error_iff:
  "snd (firstOfKind rs gvk) \<noteq> None \<longleftrightarrow> (\<forall>x\<in>set rs. Kind x \<noteq> gvkKind gvk)"
  by (induction rs) auto

lemma serverResourceForGroupVersionKind_call:
  "disco_ServerResourcesForGroupVersion disco (GroupVersion_String (GroupVersion_of gvk)) (world b)
     = ((res, err), w')
   \<Longrightarrow> serverResourceForGroupVersionKind disco gvk b =
        (case err of
           Some e \<Rightarrow> Returned ((None, Some (UnableToFetch (GroupVersion_of gvk) e)),
                        \<lparr>world = w', calls = calls b @
                           [CallServerResourcesForGroupVersion
                              (GroupVersion_String (GroupVersion_of gvk))]\<rparr>)
         | None \<Rightarrow>
             (case res of
                None \<Rightarrow> Panic
              | Some rl \<Rightarrow> Returned (firstOfKind (APIResources rl) gvk,
                            \<lparr>world = w', calls = calls b @
                               [CallServerResourcesForGroupVersion
                                  (GroupVersion_String (GroupVersion_of gvk))]\<rparr>)))"
  by (simp add: serverResourceForGroupVersionKind_def invoke_def Let_def split: option.splits)

lemma ClientForResource_propagates:
  "ClientForGroupVersionKind NewForConfig pool (objKind obj) h = Returned ((client, None), h')
   \<Longrightarrow> serverResourceForGroupVersionKind disco (objKind obj) b = Returned ((r, Some e), b')
   \<Longrightarrow> ClientForResource NewForConfig pool disco obj defNs h b
         = Returned ((None, None, Some e), h', b')"
  by (simp add: ClientForResource_def Let_def)

lemma ClientForResource_success:
  assumes construct:
    "ClientForGroupVersionKind NewForConfig pool (objKind obj) h = Returned ((Some client, None), h')"
  and lookup:
    "disco_ServerResourcesForGroupVersion disco
       (GroupVersion_String (GroupVersion_of (objKind obj))) (world b) = ((Some rl, None), w')"
  and first: "APIResources rl = pre @ r # post"
    "\<forall>x\<in>set pre. Kind x \<noteq> gvkKind (objKind obj)" "Kind r = gvkKind (objKind obj)"
  and accessor: "objMeta obj = Some m"
  shows
    "ClientForResource NewForConfig pool disco obj defNs h b =
       Returned
         ((Some \<lparr>rcClient = client,
                 rcResource = \<lparr>gvrGroup = gvkGroup (objKind obj),
                               gvrVersion = gvkVersion (objKind obj),
                               gvrResource = takeWhile (\<lambda>x. x \<noteq> CHR ''/'') (Name r)\<rparr>,
                 rcNamespace = (if metaNamespace m = [] then defNs else metaNamespace m)\<rparr>,
           (if CHR ''/'' \<in> set (Name r) then Some (tl (segments CHR ''/'' (Name r))) else None),
           None),
          h',
          \<lparr>world = w', calls = calls b @
             [CallServerResourcesForGroupVersion
                (GroupVersion_String (GroupVersion_of (objKind obj)))]\<rparr>)"
proof -
  let ?b' = "\<lparr>world = w', calls = calls b @
             [CallServerResourcesForGroupVersion
                (GroupVersion_String (GroupVersion_of (objKind obj)))]\<rparr>"
  have found: "serverResourceForGroupVersionKind disco (objKind obj) b
      = Returned ((Some r, None), ?b')"
    using serverResourceForGroupVersionKind_call [OF lookup] first
    by (simp add: firstOfKind_first)
  have acc: "Accessor obj = (Some m, None)"
    using accessor by (simp add: Accessor_def)
  have subs: "CHR ''/'' \<in> set (Name r) \<Longrightarrow>
      Split (tl (dropWhile (\<lambda>x. x \<noteq> CHR ''/'') (Name r))) CHR ''/''
        = tl (segments CHR ''/'' (Name r))"
    by (simp add: Split_segments segments_first)
  show ?thesis
    using subs
    by (simp add: ClientForResource_def construct found acc resource_name_tokens
        WithResource_def GroupVersion_of_def Let_def)
qed

lemma resource_name_is_first_segment:
  "takeWhile (\<lambda>x. x \<noteq> CHR ''/'') name = hd (segments CHR ''/'' name)"
  by (cases "CHR ''/'' \<in> set name")
    (simp_all add: segments_first segments_no_sep takeWhile_no_sep)

lemma example_gvs: "GroupVersion_String (GroupVersion_of example_kind) = ''apps/v1''"
  by (simp add: GroupVersion_String_def GroupVersion_of_def example_kind_def)

lemma example_construct:
  "ClientForGroupVersionKind example_NewForConfig example_pool example_kind example_heap
     = Returned ((Some example_client, None), example_heap_after)"
  by (simp add: ClientForGroupVersionKind_valid example_pool_def example_heap_def
      example_NewForConfig_def example_config_def example_client_config_def example_resolver_def
      example_kind_def GroupVersion_of_def example_client_def example_heap_after_def)

lemma example_bad_construct:
  "ClientForGroupVersionKind example_NewForConfig example_bad_pool example_kind example_bad_heap
     = Returned ((None, Some (Error ''host must be a URL or a host:port pair: bad/host'')),
                 example_bad_heap_after)"
  by (simp add: ClientForGroupVersionKind_valid example_bad_pool_def example_bad_heap_def
      example_NewForConfig_def example_bad_config_def example_resolver_def
      example_kind_def GroupVersion_of_def example_bad_heap_after_def)

section \<open>Properties of the discovery cache\<close>

text \<open>
  Claim C1. Once a call of \<open>ServerGroups\<close> (or of \<open>OpenAPISchema\<close>) has returned a
  non-nil value \<open>g\<close> with a nil error, then after any sequence \<open>xs\<close> of operations on
  the client in which \<open>Invalidate\<close> does not occur, a call of the same operation returns
  \<open>g\<close> with a nil error and leaves the client and the backend as they were: the world of
  the underlying client and the log of calls made to it are unchanged, so the underlying
  client was not invoked.
\<close>

theorem cached_result_until_Invalidate:
  "(ServerGroups c b = ((Some g, None), c1, b1) \<and> OpInvalidate \<notin> set xs
      \<and> run xs (c1, b1) = (c2, b2)
      \<longrightarrow> ServerGroups c2 b2 = ((Some g, None), c2, b2))
   \<and> (OpenAPISchema c b = ((Some d, None), c1, b1) \<and> OpInvalidate \<notin> set xs
      \<and> run xs (c1, b1) = (c2, b2)
      \<longrightarrow> OpenAPISchema c2 b2 = ((Some d, None), c2, b2))"
proof (intro conjI impI)
  assume h: "ServerGroups c b = ((Some g, None), c1, b1) \<and> OpInvalidate \<notin> set xs
      \<and> run xs (c1, b1) = (c2, b2)"
  then have "servergroups c1 = Some g"
    by (blast dest: ServerGroups_success_caches)
  with h have "servergroups c2 = Some g"
    using run_servergroups_Some [of xs "(c1, b1)" g] by simp
  then show "ServerGroups c2 b2 = ((Some g, None), c2, b2)"
    by (rule ServerGroups_cached)
next
  assume h: "OpenAPISchema c b = ((Some d, None), c1, b1) \<and> OpInvalidate \<notin> set xs
      \<and> run xs (c1, b1) = (c2, b2)"
  then have "schema c1 = Some d"
    by (blast dest: OpenAPISchema_success_caches)
  with h have "schema c2 = Some d"
    using run_schema_Some [of "(c1, b1)" d xs] by simp
  then show "OpenAPISchema c2 b2 = ((Some d, None), c2, b2)"
    by (rule OpenAPISchema_cached)
qed

theorem cached_result_until_Invalidate_witness:
  "fst (ServerGroups (NewMemcachedDiscoveryClient example_disco) (example_backend 1))
     = (Some (APIGroupList [''apps'']), None)
   \<and> fst (OpenAPISchema (NewMemcachedDiscoveryClient example_disco) (example_backend 1))
     = (Some (Document ''swagger''), None)
   \<and> OpInvalidate \<notin> set [OpServerVersion, OpServerResourcesForGroupVersion ''v1'']
   \<and> (let s = run [OpServerVersion, OpServerResourcesForGroupVersion ''v1'']
                (snd (ServerGroups (NewMemcachedDiscoveryClient example_disco) (example_backend 1)))
      in ServerGroups (fst s) (snd s) = ((Some (APIGroupList [''apps'']), None), s))
   \<and> (let s = run [OpServerVersion, OpServerResourcesForGroupVersion ''v1'']
                (snd (OpenAPISchema (NewMemcachedDiscoveryClient example_disco) (example_backend 1)))
      in OpenAPISchema (fst s) (snd s) = ((Some (Document ''swagger''), None), s))"
proof -
  let ?c = "NewMemcachedDiscoveryClient example_disco"
  let ?b = "example_backend 1"
  let ?xs = "[OpServerVersion, OpServerResourcesForGroupVersion ''v1'']"
  have g: "fst (ServerGroups ?c ?b) = (Some (APIGroupList [''apps'']), None)"
    by (simp add: op_defs example_defs)
  have d: "fst (OpenAPISchema ?c ?b) = (Some (Document ''swagger''), None)"
    by (simp add: op_defs example_defs)
  have n: "OpInvalidate \<notin> set ?xs" by simp
  let ?s = "run ?xs (snd (ServerGroups ?c ?b))"
  let ?t = "run ?xs (snd (OpenAPISchema ?c ?b))"
  have 1: "ServerGroups (fst ?s) (snd ?s) = ((Some (APIGroupList [''apps'']), None), ?s)"
    using cached_result_until_Invalidate [where c = ?c and b = ?b and g = "APIGroupList [''apps'']"
        and ?c1.0 = "fst (snd (ServerGroups ?c ?b))" and ?b1.0 = "snd (snd (ServerGroups ?c ?b))"
        and xs = ?xs and ?c2.0 = "fst ?s" and ?b2.0 = "snd ?s"] g n
    by (simp add: prod_eq_iff)
  have 2: "OpenAPISchema (fst ?t) (snd ?t) = ((Some (Document ''swagger''), None), ?t)"
    using cached_result_until_Invalidate [where c = ?c and b = ?b and d = "Document ''swagger''"
        and ?c1.0 = "fst (snd (OpenAPISchema ?c ?b))" and ?b1.0 = "snd (snd (OpenAPISchema ?c ?b))"
        and xs = ?xs and ?c2.0 = "fst ?t" and ?b2.0 = "snd ?t"] d n
    by (simp add: prod_eq_iff)
  from g d n 1 2 show ?thesis by (simp only: Let_def) blast
qed

text \<open>
  Claim C2. (1) On a client built by \<open>NewMemcachedDiscoveryClient\<close>, after any operations
  \<open>xs\<close> that do not ask for the group version \<open>gv\<close>, the first call for \<open>gv\<close>
  invokes the underlying client, returns its result and stores the value under the key
  \<open>gv\<close>. (2) While the entry stored for \<open>gv\<close> is a non-nil list \<open>rl\<close>, and until
  \<open>Invalidate\<close> is called, every call for \<open>gv\<close> returns \<open>rl\<close> with a nil error and
  changes neither the client nor the backend. (3) \<open>Invalidate\<close> replaces the map with the
  empty map, and (4) the next call for \<open>gv\<close> invokes the underlying client again.
\<close>

theorem ServerResourcesForGroupVersion_memo:
  "(OpServerResourcesForGroupVersion gv \<notin> set xs
      \<and> run xs (NewMemcachedDiscoveryClient d, b0) = (c, b)
      \<and> disco_ServerResourcesForGroupVersion d gv (world b) = ((v, err), w')
      \<longrightarrow> ServerResourcesForGroupVersion c gv b =
            ((v, err), c\<lparr>serverresources := (serverresources c)(gv \<mapsto> v)\<rparr>,
             \<lparr>world = w', calls = calls b @ [CallServerResourcesForGroupVersion gv]\<rparr>))
   \<and> (stored c1 gv = Some rl \<and> OpInvalidate \<notin> set ys \<and> run ys (c1, b1) = (c2, b2)
      \<longrightarrow> ServerResourcesForGroupVersion c2 gv b2 = ((Some rl, None), c2, b2))
   \<and> serverresources (Invalidate c3) = Map.empty
   \<and> (disco_ServerResourcesForGroupVersion (cl c3) gv (world b3) = ((v3, err3), w3)
      \<longrightarrow> ServerResourcesForGroupVersion (Invalidate c3) gv b3 =
            ((v3, err3), (Invalidate c3)\<lparr>serverresources := [gv \<mapsto> v3]\<rparr>,
             \<lparr>world = w3, calls = calls b3 @ [CallServerResourcesForGroupVersion gv]\<rparr>))"
proof (intro conjI impI)
  assume h: "OpServerResourcesForGroupVersion gv \<notin> set xs
      \<and> run xs (NewMemcachedDiscoveryClient d, b0) = (c, b)
      \<and> disco_ServerResourcesForGroupVersion d gv (world b) = ((v, err), w')"
  then have "stored c gv = None"
    using run_stored_None [of gv xs "(NewMemcachedDiscoveryClient d, b0)"]
    by (simp add: stored_New)
  moreover from h have "cl c = d"
    using run_cl [of xs "(NewMemcachedDiscoveryClient d, b0)"] by (simp add: cl_New)
  ultimately show "ServerResourcesForGroupVersion c gv b =
            ((v, err), c\<lparr>serverresources := (serverresources c)(gv \<mapsto> v)\<rparr>,
             \<lparr>world = w', calls = calls b @ [CallServerResourcesForGroupVersion gv]\<rparr>)"
    using h by (simp add: ServerResourcesForGroupVersion_miss)
next
  assume h: "stored c1 gv = Some rl \<and> OpInvalidate \<notin> set ys \<and> run ys (c1, b1) = (c2, b2)"
  then have "stored c2 gv = Some rl"
    using run_stored_Some [of ys "(c1, b1)" gv rl] by simp
  then show "ServerResourcesForGroupVersion c2 gv b2 = ((Some rl, None), c2, b2)"
    by (rule ServerResourcesForGroupVersion_cached)
next
  show "serverresources (Invalidate c3) = Map.empty"
    by (simp add: Invalidate_def)
next
  assume "disco_ServerResourcesForGroupVersion (cl c3) gv (world b3) = ((v3, err3), w3)"
  then show "ServerResourcesForGroupVersion (Invalidate c3) gv b3 =
            ((v3, err3), (Invalidate c3)\<lparr>serverresources := [gv \<mapsto> v3]\<rparr>,
             \<lparr>world = w3, calls = calls b3 @ [CallServerResourcesForGroupVersion gv]\<rparr>)"
    using ServerResourcesForGroupVersion_miss [of "Invalidate c3" gv b3 v3 err3 w3]
    by (simp add: stored_Invalidate) (simp add: Invalidate_def)
qed

theorem ServerResourcesForGroupVersion_memo_witness:
  "(let gv = ''apps/v1''; xs = [OpServerGroups, OpServerResourcesForGroupVersion ''v1''];
        s = run xs (NewMemcachedDiscoveryClient example_disco, example_backend 1);
        rl = \<lparr>listGroupVersion = gv, APIResources = example_resources\<rparr>;
        r = ServerResourcesForGroupVersion (fst s) gv (snd s);
        t = run [OpServerVersion, OpServerGroups] (snd r)
    in OpServerResourcesForGroupVersion gv \<notin> set xs
       \<and> disco_ServerResourcesForGroupVersion example_disco gv (world (snd s))
           = ((Some rl, None), 4)
       \<and> r = ((Some rl, None), (fst s)\<lparr>serverresources := (serverresources (fst s))(gv \<mapsto> Some rl)\<rparr>,
               \<lparr>world = 4, calls = calls (snd s) @ [CallServerResourcesForGroupVersion gv]\<rparr>)
       \<and> stored (fst (snd r)) gv = Some rl
       \<and> OpInvalidate \<notin> set [OpServerVersion, OpServerGroups]
       \<and> ServerResourcesForGroupVersion (fst t) gv (snd t) = ((Some rl, None), t)
       \<and> disco_ServerResourcesForGroupVersion (cl (fst t)) gv (world (snd t))
           = ((Some rl, None), 6)
       \<and> ServerResourcesForGroupVersion (Invalidate (fst t)) gv (snd t) =
            ((Some rl, None), (Invalidate (fst t))\<lparr>serverresources := [gv \<mapsto> Some rl]\<rparr>,
             \<lparr>world = 6, calls = calls (snd t) @ [CallServerResourcesForGroupVersion gv]\<rparr>))"
proof -
  let ?gv = "''apps/v1''"
  let ?xs = "[OpServerGroups, OpServerResourcesForGroupVersion ''v1'']"
  let ?ys = "[OpServerVersion, OpServerGroups]"
  let ?s = "run ?xs (NewMemcachedDiscoveryClient example_disco, example_backend 1)"
  let ?rl = "\<lparr>listGroupVersion = ?gv, APIResources = example_resources\<rparr>"
  let ?r = "ServerResourcesForGroupVersion (fst ?s) ?gv (snd ?s)"
  let ?t = "run ?ys (snd ?r)"
  have ws: "world (snd ?s) = 3"
    by (simp add: op_defs example_defs)
  have "disco_ServerResourcesForGroupVersion example_disco ?gv 3 = ((Some ?rl, None), 4)"
    by (simp add: example_disco_def)
  with ws have pre1: "OpServerResourcesForGroupVersion ?gv \<notin> set ?xs"
    "disco_ServerResourcesForGroupVersion example_disco ?gv (world (snd ?s)) = ((Some ?rl, None), 4)"
    "OpInvalidate \<notin> set ?ys"
    by simp_all
  note inst = ServerResourcesForGroupVersion_memo [where gv = ?gv and xs = ?xs and d = example_disco
      and ?b0.0 = "example_backend 1" and c = "fst ?s" and b = "snd ?s" and v = "Some ?rl"
      and err = None and w' = 4
      and ?c1.0 = "fst (snd ?r)" and ?b1.0 = "snd (snd ?r)" and rl = ?rl and ys = ?ys
      and ?c2.0 = "fst ?t" and ?b2.0 = "snd ?t"
      and ?c3.0 = "fst ?t" and ?b3.0 = "snd ?t" and ?v3.0 = "Some ?rl" and ?err3.0 = None
      and ?w3.0 = 6]
  from inst [THEN conjunct1] pre1 have r: "?r = ((Some ?rl, None),
       (fst ?s)\<lparr>serverresources := (serverresources (fst ?s))(?gv \<mapsto> Some ?rl)\<rparr>,
       \<lparr>world = 4, calls = calls (snd ?s) @ [CallServerResourcesForGroupVersion ?gv]\<rparr>)"
    by (simp only: prod.collapse simp_thms)
  then have st: "stored (fst (snd ?r)) ?gv = Some ?rl"
    by (simp add: stored_def)
  from inst [THEN conjunct2, THEN conjunct1] pre1 st have t: "ServerResourcesForGroupVersion (fst ?t) ?gv (snd ?t) = ((Some ?rl, None), ?t)"
    by (simp only: prod.collapse simp_thms)
  have wt: "world (snd ?t) = 5"
    by (simp add: r) (simp add: op_defs example_defs)
  have clt: "cl (fst ?t) = example_disco"
    by (simp only: run_cl ServerResourcesForGroupVersion_cl cl_New fst_conv)
  have "disco_ServerResourcesForGroupVersion example_disco ?gv 5 = ((Some ?rl, None), 6)"
    by (simp add: example_disco_def)
  with wt clt have pre3: "disco_ServerResourcesForGroupVersion (cl (fst ?t)) ?gv (world (snd ?t))
      = ((Some ?rl, None), 6)"
    by simp
  from inst [THEN conjunct2, THEN conjunct2, THEN conjunct2] pre3 have i: "ServerResourcesForGroupVersion (Invalidate (fst ?t)) ?gv (snd ?t) =
       ((Some ?rl, None), (Invalidate (fst ?t))\<lparr>serverresources := [?gv \<mapsto> Some ?rl]\<rparr>,
        \<lparr>world = 6, calls = calls (snd ?t) @ [CallServerResourcesForGroupVersion ?gv]\<rparr>)"
    by (simp only: simp_thms)
  from pre1 r st t pre3 i show ?thesis
    by (simp only: Let_def simp_thms)
qed

section \<open>Properties of the pool and of ClientForResource\<close>

text \<open>
  Claim C3, as the code has it. Let the pool build a non-nil client for the kind of the
  object, let the discovery call for the group version of that kind return a list \<open>rl\<close>
  with a nil error, let \<open>r\<close> be the first resource of \<open>rl\<close> whose \<open>Kind\<close> is the kind
  asked for (nothing before it in the list has that kind), and let the object have metadata
  \<open>m\<close>. Then \<open>ClientForResource\<close> returns a nil error and the resource client made from
  that client, for the resource named by the text of \<open>Name r\<close> before its first slash (the
  first of its slash-separated segments), in the namespace of the object, or in \<open>defNs\<close>
  when that namespace is empty. The subresources are the remaining segments of \<open>Name r\<close>,
  and nil when \<open>Name r\<close> has no slash. Client construction and the metadata accessor are
  guards of the code. When the pool returns a construction error, \<open>ClientForResource\<close>
  returns \<open>(nil, nil, that error)\<close> and does not reach the discovery client. When the pool
  returns a nil error and the lookup returns a nil error but the object has no metadata
  accessor, \<open>ClientForResource\<close> returns \<open>(nil, nil, ErrNotObject)\<close>, whatever \<open>defNs\<close> is.
\<close>

theorem ClientForResource_resolves:
  "(ClientForGroupVersionKind NewForConfig pool (objKind obj) h
      = Returned ((Some client, None), h')
    \<and> disco_ServerResourcesForGroupVersion disco
        (GroupVersion_String (GroupVersion_of (objKind obj))) (world b) = ((Some rl, None), w')
    \<and> APIResources rl = pre @ r # post
    \<and> (\<forall>x\<in>set pre. Kind x \<noteq> gvkKind (objKind obj))
    \<and> Kind r = gvkKind (objKind obj)
    \<and> objMeta obj = Some m
    \<longrightarrow>
      ClientForResource NewForConfig pool disco obj defNs h b =
       Returned
         ((Some \<lparr>rcClient = client,
                 rcResource = \<lparr>gvrGroup = gvkGroup (objKind obj),
                               gvrVersion = gvkVersion (objKind obj),
                               gvrResource = takeWhile (\<lambda>x. x \<noteq> CHR ''/'') (Name r)\<rparr>,
                 rcNamespace = (if metaNamespace m = [] then defNs else metaNamespace m)\<rparr>,
           (if CHR ''/'' \<in> set (Name r) then Some (tl (segments CHR ''/'' (Name r))) else None),
           None),
          h',
          \<lparr>world = w', calls = calls b @
             [CallServerResourcesForGroupVersion
                (GroupVersion_String (GroupVersion_of (objKind obj)))]\<rparr>)
      \<and> takeWhile (\<lambda>x. x \<noteq> CHR ''/'') (Name r) = hd (segments CHR ''/'' (Name r)))
   \<and> (ClientForGroupVersionKind NewForConfig pool (objKind obj) h1
        = Returned ((client1, Some err1), h1')
      \<longrightarrow> ClientForResource NewForConfig pool disco obj defNs h1 b1
            = Returned ((None, None, Some err1), h1', b1))
   \<and> (ClientForGroupVersionKind NewForConfig pool (objKind obj) h2
        = Returned ((client2, None), h2')
      \<and> serverResourceForGroupVersionKind disco (objKind obj) b2
        = Returned ((resource2, None), b2')
      \<and> objMeta obj = None
      \<longrightarrow> ClientForResource NewForConfig pool disco obj defNs h2 b2
            = Returned ((None, None, Some ErrNotObject), h2', b2'))"
proof -
  have success: "ClientForGroupVersionKind NewForConfig pool (objKind obj) h
      = Returned ((Some client, None), h')
    \<and> disco_ServerResourcesForGroupVersion disco
        (GroupVersion_String (GroupVersion_of (objKind obj))) (world b) = ((Some rl, None), w')
    \<and> APIResources rl = pre @ r # post
    \<and> (\<forall>x\<in>set pre. Kind x \<noteq> gvkKind (objKind obj))
    \<and> Kind r = gvkKind (objKind obj)
    \<and> objMeta obj = Some m
    \<longrightarrow>
      ClientForResource NewForConfig pool disco obj defNs h b =
       Returned
         ((Some \<lparr>rcClient = client,
                 rcResource = \<lparr>gvrGroup = gvkGroup (objKind obj),
                               gvrVersion = gvkVersion (objKind obj),
                               gvrResource = takeWhile (\<lambda>x. x \<noteq> CHR ''/'') (Name r)\<rparr>,
                 rcNamespace = (if metaNamespace m = [] then defNs else metaNamespace m)\<rparr>,
           (if CHR ''/'' \<in> set (Name r) then Some (tl (segments CHR ''/'' (Name r))) else None),
           None),
          h',
          \<lparr>world = w', calls = calls b @
             [CallServerResourcesForGroupVersion
                (GroupVersion_String (GroupVersion_of (objKind obj)))]\<rparr>)
      \<and> takeWhile (\<lambda>x. x \<noteq> CHR ''/'') (Name r) = hd (segments CHR ''/'' (Name r))"
    using ClientForResource_success [of NewForConfig pool obj h client h' disco b rl w' pre r post m defNs]
      resource_name_is_first_segment [of "Name r"]
    by blast
  have construction: "ClientForGroupVersionKind NewForConfig pool (objKind obj) h1
        = Returned ((client1, Some err1), h1')
      \<longrightarrow> ClientForResource NewForConfig pool disco obj defNs h1 b1
            = Returned ((None, None, Some err1), h1', b1)"
    by (blast intro: ClientForResource_construction_fails)
  have no_accessor: "ClientForGroupVersionKind NewForConfig pool (objKind obj) h2
        = Returned ((client2, None), h2')
      \<and> serverResourceForGroupVersionKind disco (objKind obj) b2
        = Returned ((resource2, None), b2')
      \<and> objMeta obj = None
      \<longrightarrow> ClientForResource NewForConfig pool disco obj defNs h2 b2
            = Returned ((None, None, Some ErrNotObject), h2', b2')"
  proof
    assume a: "ClientForGroupVersionKind NewForConfig pool (objKind obj) h2
        = Returned ((client2, None), h2')
      \<and> serverResourceForGroupVersionKind disco (objKind obj) b2
        = Returned ((resource2, None), b2')
      \<and> objMeta obj = None"
    then have "Accessor obj = (None, Some ErrNotObject)"
      by (simp add: Accessor_def)
    with a show "ClientForResource NewForConfig pool disco obj defNs h2 b2
            = Returned ((None, None, Some ErrNotObject), h2', b2')"
      by (blast intro: ClientForResource_accessor_fails)
  qed
  from success construction no_accessor show ?thesis
    by (intro conjI)
qed

theorem ClientForResource_resolves_witness:
  "ClientForGroupVersionKind example_NewForConfig example_pool (objKind example_object) example_heap
     = Returned ((Some example_client, None), example_heap_after)
   \<and> disco_ServerResourcesForGroupVersion example_disco
        (GroupVersion_String (GroupVersion_of (objKind example_object)))
        (world (example_backend 1))
     = ((Some \<lparr>listGroupVersion = ''apps/v1'', APIResources = example_resources\<rparr>, None), 2)
   \<and> example_resources =
       [\<lparr>Name = ''pods'', Namespaced = True, Kind = ''Pod''\<rparr>]
       @ \<lparr>Name = ''deployments/status'', Namespaced = True, Kind = ''Deployment''\<rparr>
       # [\<lparr>Name = ''deployments'', Namespaced = True, Kind = ''Deployment''\<rparr>]
   \<and> objMeta example_object = Some \<lparr>metaName = ''web'', metaNamespace = []\<rparr>
   \<and> ClientForResource example_NewForConfig example_pool example_disco example_object
        ''default'' example_heap (example_backend 1)
     = Returned
         ((Some \<lparr>rcClient = example_client,
                 rcResource = \<lparr>gvrGroup = ''apps'', gvrVersion = ''v1'',
                               gvrResource = ''deployments''\<rparr>,
                 rcNamespace = ''default''\<rparr>,
           Some [''status''], None),
          example_heap_after,
          \<lparr>world = 2, calls = [CallServerResourcesForGroupVersion ''apps/v1'']\<rparr>)
   \<and> ClientForGroupVersionKind example_NewForConfig example_bad_pool (objKind example_object)
        example_bad_heap
     = Returned ((None, Some (Error ''host must be a URL or a host:port pair: bad/host'')),
                 example_bad_heap_after)
   \<and> ClientForResource example_NewForConfig example_bad_pool example_disco example_object
        ''default'' example_bad_heap (example_backend 1)
     = Returned ((None, None, Some (Error ''host must be a URL or a host:port pair: bad/host'')),
                 example_bad_heap_after, example_backend 1)
   \<and> ClientForGroupVersionKind example_NewForConfig example_pool
        (objKind example_object_without_meta) example_heap
     = Returned ((Some example_client, None), example_heap_after)
   \<and> serverResourceForGroupVersionKind example_disco (objKind example_object_without_meta)
        (example_backend 1)
     = Returned ((Some \<lparr>Name = ''deployments/status'', Namespaced = True, Kind = ''Deployment''\<rparr>,
                  None),
                 \<lparr>world = 2, calls = [CallServerResourcesForGroupVersion ''apps/v1'']\<rparr>)
   \<and> objMeta example_object_without_meta = None
   \<and> ClientForResource example_NewForConfig example_pool example_disco
        example_object_without_meta ''kube-system'' example_heap (example_backend 1)
     = Returned ((None, None, Some ErrNotObject), example_heap_after,
                 \<lparr>world = 2, calls = [CallServerResourcesForGroupVersion ''apps/v1'']\<rparr>)"
proof -
  let ?pre = "[\<lparr>Name = ''pods'', Namespaced = True, Kind = ''Pod''\<rparr>]"
  let ?r = "\<lparr>Name = ''deployments/status'', Namespaced = True, Kind = ''Deployment''\<rparr>"
  let ?post = "[\<lparr>Name = ''deployments'', Namespaced = True, Kind = ''Deployment''\<rparr>]"
  let ?rl = "\<lparr>listGroupVersion = ''apps/v1'', APIResources = example_resources\<rparr>"
  let ?m = "\<lparr>metaName = ''web'', metaNamespace = []\<rparr>"
  let ?b' = "\<lparr>world = 2, calls = [CallServerResourcesForGroupVersion ''apps/v1'']\<rparr>"
  let ?e = "Error ''host must be a URL or a host:port pair: bad/host''"
  have k: "objKind example_object = example_kind"
    "objKind example_object_without_meta = example_kind"
    by (simp_all add: example_object_def example_object_without_meta_def)
  have construct: "ClientForGroupVersionKind example_NewForConfig example_pool
      (objKind example_object) example_heap
     = Returned ((Some example_client, None), example_heap_after)"
    by (simp only: k example_construct)
  have lookup: "disco_ServerResourcesForGroupVersion example_disco
        (GroupVersion_String (GroupVersion_of (objKind example_object)))
        (world (example_backend 1)) = ((Some ?rl, None), 2)"
    by (simp add: k example_gvs example_disco_def example_backend_def)
  have list0: "example_resources = ?pre @ ?r # ?post"
    by (simp add: example_resources_def)
  then have list: "APIResources ?rl = ?pre @ ?r # ?post"
    by simp
  have before: "\<forall>x\<in>set ?pre. Kind x \<noteq> gvkKind (objKind example_object)"
    by (simp add: k example_kind_def)
  have kind: "Kind ?r = gvkKind (objKind example_object)"
    by (simp add: k example_kind_def)
  have accessor: "objMeta example_object = Some ?m"
    by (simp add: example_object_def)
  have resolved: "ClientForResource example_NewForConfig example_pool example_disco example_object
        ''default'' example_heap (example_backend 1)
     = Returned
         ((Some \<lparr>rcClient = example_client,
                 rcResource = \<lparr>gvrGroup = ''apps'', gvrVersion = ''v1'',
                               gvrResource = ''deployments''\<rparr>,
                 rcNamespace = ''default''\<rparr>,
           Some [''status''], None),
          example_heap_after, ?b')"
    using ClientForResource_resolves [where NewForConfig = example_NewForConfig
        and pool = example_pool and obj = example_object and h = example_heap
        and client = example_client and h' = example_heap_after and disco = example_disco
        and b = "example_backend 1" and rl = ?rl and w' = 2 and pre = ?pre and r = ?r
        and post = ?post and m = ?m and defNs = "''default''", THEN conjunct1, THEN mp,
        OF conjI [OF construct conjI [OF lookup conjI [OF list conjI [OF before
          conjI [OF kind accessor]]]]], THEN conjunct1]
    by (simp add: k example_gvs example_backend_def) (simp add: example_kind_def)
  have bad: "ClientForGroupVersionKind example_NewForConfig example_bad_pool
      (objKind example_object) example_bad_heap = Returned ((None, Some ?e), example_bad_heap_after)"
    by (simp only: k example_bad_construct)
  have refused: "ClientForResource example_NewForConfig example_bad_pool example_disco
        example_object ''default'' example_bad_heap (example_backend 1)
     = Returned ((None, None, Some ?e), example_bad_heap_after, example_backend 1)"
    using ClientForResource_resolves [where NewForConfig = example_NewForConfig
        and pool = example_bad_pool and obj = example_object and ?h1.0 = example_bad_heap
        and ?client1.0 = None and ?err1.0 = ?e and ?h1'.0 = example_bad_heap_after
        and disco = example_disco and ?b1.0 = "example_backend 1" and defNs = "''default''",
        THEN conjunct2, THEN conjunct1] bad
    by (simp only: simp_thms)
  have construct2: "ClientForGroupVersionKind example_NewForConfig example_pool
      (objKind example_object_without_meta) example_heap
     = Returned ((Some example_client, None), example_heap_after)"
    by (simp only: k example_construct)
  have found: "serverResourceForGroupVersionKind example_disco
      (objKind example_object_without_meta) (example_backend 1) = Returned ((Some ?r, None), ?b')"
    by (simp add: serverResourceForGroupVersionKind_def invoke_def k example_gvs example_disco_def
        example_backend_def example_resources_def)
      (simp add: example_kind_def)
  have nometa: "objMeta example_object_without_meta = None"
    by (simp add: example_object_without_meta_def)
  have guarded: "ClientForResource example_NewForConfig example_pool example_disco
        example_object_without_meta ''kube-system'' example_heap (example_backend 1)
     = Returned ((None, None, Some ErrNotObject), example_heap_after, ?b')"
    using ClientForResource_resolves [where NewForConfig = example_NewForConfig
        and pool = example_pool and obj = example_object_without_meta and ?h2.0 = example_heap
        and ?client2.0 = "Some example_client" and ?h2'.0 = example_heap_after
        and disco = example_disco and ?b2.0 = "example_backend 1" and ?resource2.0 = "Some ?r"
        and ?b2'.0 = ?b' and defNs = "''kube-system''",
        THEN conjunct2, THEN conjunct2] construct2 found nometa
    by (simp only: simp_thms)
  from construct lookup list0 accessor resolved bad refused construct2 found nometa guarded
  show ?thesis
    by (intro conjI)
qed

text \<open>
  Claim C3 as worded asks for a resource client whenever the discovery lookup succeeds. For
  an object without a metadata accessor the pool builds the client and the lookup finds the
  resource, yet \<open>ClientForResource\<close> returns the accessor's error and no client.
\<close>

theorem ClientForResource_accessor_guard:
  "serverResourceForGroupVersionKind example_disco (objKind example_object_without_meta)
      (example_backend 1)
     = Returned ((Some \<lparr>Name = ''deployments/status'', Namespaced = True, Kind = ''Deployment''\<rparr>,
                  None),
                 \<lparr>world = 2, calls = [CallServerResourcesForGroupVersion ''apps/v1'']\<rparr>)
   \<and> ClientForGroupVersionKind example_NewForConfig example_pool
        (objKind example_object_without_meta) example_heap
     = Returned ((Some example_client, None), example_heap_after)
   \<and> ClientForResource example_NewForConfig example_pool example_disco
        example_object_without_meta ''default'' example_heap (example_backend 1)
     = Returned ((None, None, Some ErrNotObject), example_heap_after,
                 \<lparr>world = 2, calls = [CallServerResourcesForGroupVersion ''apps/v1'']\<rparr>)"
proof -
  have k: "objKind example_object_without_meta = example_kind"
    by (simp add: example_object_without_meta_def)
  have sr: "serverResourceForGroupVersionKind example_disco example_kind (example_backend 1)
     = Returned ((Some \<lparr>Name = ''deployments/status'', Namespaced = True, Kind = ''Deployment''\<rparr>,
                  None),
                 \<lparr>world = 2, calls = [CallServerResourcesForGroupVersion ''apps/v1'']\<rparr>)"
    by (simp add: serverResourceForGroupVersionKind_def invoke_def example_gvs example_disco_def
        example_backend_def example_resources_def)
      (simp add: example_kind_def)
  have "ClientForResource example_NewForConfig example_pool example_disco
        example_object_without_meta ''default'' example_heap (example_backend 1)
     = Returned ((None, None, Some ErrNotObject), example_heap_after,
                 \<lparr>world = 2, calls = [CallServerResourcesForGroupVersion ''apps/v1'']\<rparr>)"
    by (simp add: ClientForResource_def k example_construct sr Accessor_def
        example_object_without_meta_def del: One_nat_def)
  with k sr example_construct show ?thesis by simp
qed

text \<open>
  Claim C4, as the code has it. Let the discovery call for the group version of \<open>gvk\<close>
  return \<open>(res, err)\<close>. If \<open>err\<close> is an error, \<open>serverResourceForGroupVersionKind\<close>
  returns nil and an error that wraps it. If \<open>err\<close> is nil and \<open>res\<close> is a list without a
  resource of the kind asked for, it returns nil and the error "unable to handle". If \<open>err\<close>
  is nil and \<open>res\<close> is a list, it returns the first resource of that kind with a nil
  error. So, provided a nil error comes with a non-nil list, an error is returned exactly
  when the call failed or the list has no resource of the kind. When the pool has built a
  client, \<open>ClientForResource\<close> returns \<open>(nil, nil, e)\<close> for every error \<open>e\<close> of
  \<open>serverResourceForGroupVersionKind\<close>.
\<close>

theorem serverResourceForGroupVersionKind_errors:
  assumes call:
    "disco_ServerResourcesForGroupVersion disco (GroupVersion_String (GroupVersion_of gvk))
       (world b) = ((res, err), w')"
  shows
    "(err = Some e0 \<longrightarrow>
        serverResourceForGroupVersionKind disco gvk b =
          Returned ((None, Some (UnableToFetch (GroupVersion_of gvk) e0)),
                    \<lparr>world = w', calls = calls b @
                       [CallServerResourcesForGroupVersion
                          (GroupVersion_String (GroupVersion_of gvk))]\<rparr>))
     \<and> (err = None \<and> res = Some rl \<and> (\<forall>x\<in>set (APIResources rl). Kind x \<noteq> gvkKind gvk) \<longrightarrow>
        serverResourceForGroupVersionKind disco gvk b =
          Returned ((None, Some (UnableToHandle gvk)),
                    \<lparr>world = w', calls = calls b @
                       [CallServerResourcesForGroupVersion
                          (GroupVersion_String (GroupVersion_of gvk))]\<rparr>))
     \<and> (err = None \<and> res = Some rl \<and> APIResources rl = pre @ x # post
         \<and> (\<forall>y\<in>set pre. Kind y \<noteq> gvkKind gvk) \<and> Kind x = gvkKind gvk \<longrightarrow>
        serverResourceForGroupVersionKind disco gvk b =
          Returned ((Some x, None),
                    \<lparr>world = w', calls = calls b @
                       [CallServerResourcesForGroupVersion
                          (GroupVersion_String (GroupVersion_of gvk))]\<rparr>))
     \<and> ((err = None \<longrightarrow> res \<noteq> None) \<longrightarrow>
        (\<exists>r e. serverResourceForGroupVersionKind disco gvk b =
                 Returned ((r, e),
                    \<lparr>world = w', calls = calls b @
                       [CallServerResourcesForGroupVersion
                          (GroupVersion_String (GroupVersion_of gvk))]\<rparr>)
               \<and> (e \<noteq> None \<longleftrightarrow>
                    err \<noteq> None
                    \<or> (\<exists>l. res = Some l \<and> (\<forall>x\<in>set (APIResources l). Kind x \<noteq> gvkKind gvk)))))
     \<and> (objKind obj = gvk
         \<and> ClientForGroupVersionKind NewForConfig pool gvk h = Returned ((client, None), h')
         \<and> serverResourceForGroupVersionKind disco gvk b = Returned ((r1, Some e1), b1) \<longrightarrow>
        ClientForResource NewForConfig pool disco obj defNs h b
          = Returned ((None, None, Some e1), h', b1))"
proof -
  note sr = serverResourceForGroupVersionKind_call [OF call]
  have fetch: "err = Some e0 \<longrightarrow>
        serverResourceForGroupVersionKind disco gvk b =
          Returned ((None, Some (UnableToFetch (GroupVersion_of gvk) e0)),
                    \<lparr>world = w', calls = calls b @
                       [CallServerResourcesForGroupVersion
                          (GroupVersion_String (GroupVersion_of gvk))]\<rparr>)"
    by (simp add: sr)
  have nomatch: "err = None \<and> res = Some rl \<and> (\<forall>x\<in>set (APIResources rl). Kind x \<noteq> gvkKind gvk) \<longrightarrow>
        serverResourceForGroupVersionKind disco gvk b =
          Returned ((None, Some (UnableToHandle gvk)),
                    \<lparr>world = w', calls = calls b @
                       [CallServerResourcesForGroupVersion
                          (GroupVersion_String (GroupVersion_of gvk))]\<rparr>)"
    by (simp add: sr firstOfKind_none)
  have match: "err = None \<and> res = Some rl \<and> APIResources rl = pre @ x # post
         \<and> (\<forall>y\<in>set pre. Kind y \<noteq> gvkKind gvk) \<and> Kind x = gvkKind gvk \<longrightarrow>
        serverResourceForGroupVersionKind disco gvk b =
          Returned ((Some x, None),
                    \<lparr>world = w', calls = calls b @
                       [CallServerResourcesForGroupVersion
                          (GroupVersion_String (GroupVersion_of gvk))]\<rparr>)"
    by (simp add: sr firstOfKind_first)
  have iff: "(err = None \<longrightarrow> res \<noteq> None) \<longrightarrow>
        (\<exists>r e. serverResourceForGroupVersionKind disco gvk b =
                 Returned ((r, e),
                    \<lparr>world = w', calls = calls b @
                       [CallServerResourcesForGroupVersion
                          (GroupVersion_String (GroupVersion_of gvk))]\<rparr>)
               \<and> (e \<noteq> None \<longleftrightarrow>
                    err \<noteq> None
                    \<or> (\<exists>l. res = Some l \<and> (\<forall>x\<in>set (APIResources l). Kind x \<noteq> gvkKind gvk))))"
  proof (cases err)
    case (Some e)
    then show ?thesis by (simp add: sr)
  next
    case None
    show ?thesis
    proof
      assume "err = None \<longrightarrow> res \<noteq> None"
      with None obtain l where l: "res = Some l" by auto
      obtain r e where re: "firstOfKind (APIResources l) gvk = (r, e)"
        by (metis surj_pair)
      then have "e \<noteq> None \<longleftrightarrow> (\<forall>x\<in>set (APIResources l). Kind x \<noteq> gvkKind gvk)"
        using firstOfKind_error_iff [of "APIResources l" gvk] by simp
      with None l re show "\<exists>r e. serverResourceForGroupVersionKind disco gvk b =
                 Returned ((r, e),
                    \<lparr>world = w', calls = calls b @
                       [CallServerResourcesForGroupVersion
                          (GroupVersion_String (GroupVersion_of gvk))]\<rparr>)
               \<and> (e \<noteq> None \<longleftrightarrow>
                    err \<noteq> None
                    \<or> (\<exists>l. res = Some l \<and> (\<forall>x\<in>set (APIResources l). Kind x \<noteq> gvkKind gvk)))"
        by (simp add: sr)
    qed
  qed
  have propagate: "objKind obj = gvk
         \<and> ClientForGroupVersionKind NewForConfig pool gvk h = Returned ((client, None), h')
         \<and> serverResourceForGroupVersionKind disco gvk b = Returned ((r1, Some e1), b1) \<longrightarrow>
        ClientForResource NewForConfig pool disco obj defNs h b
          = Returned ((None, None, Some e1), h', b1)"
    by (auto intro: ClientForResource_propagates)
  from fetch nomatch match iff propagate show ?thesis
    by (intro conjI)
qed

theorem serverResourceForGroupVersionKind_errors_witness:
  "disco_ServerResourcesForGroupVersion example_disco
      (GroupVersion_String (GroupVersion_of example_kind)) (world (example_backend 1))
     = ((Some \<lparr>listGroupVersion = ''apps/v1'', APIResources = example_resources\<rparr>, None), 2)
   \<and> serverResourceForGroupVersionKind example_disco example_kind (example_backend 1)
     = Returned ((Some \<lparr>Name = ''deployments/status'', Namespaced = True, Kind = ''Deployment''\<rparr>,
                  None),
                 \<lparr>world = 2, calls = [CallServerResourcesForGroupVersion ''apps/v1'']\<rparr>)
   \<and> serverResourceForGroupVersionKind example_disco (example_kind\<lparr>gvkKind := ''Service''\<rparr>)
        (example_backend 1)
     = Returned ((None, Some (UnableToHandle (example_kind\<lparr>gvkKind := ''Service''\<rparr>))),
                 \<lparr>world = 2, calls = [CallServerResourcesForGroupVersion ''apps/v1'']\<rparr>)
   \<and> disco_ServerResourcesForGroupVersion example_disco
      (GroupVersion_String (GroupVersion_of example_kind)) (world (example_backend 0))
     = ((None, Some (Error ''unavailable'')), 1)
   \<and> serverResourceForGroupVersionKind example_disco example_kind (example_backend 0)
     = Returned ((None, Some (UnableToFetch \<lparr>gvGroup = ''apps'', gvVersion = ''v1''\<rparr>
                                 (Error ''unavailable''))),
                 \<lparr>world = 1, calls = [CallServerResourcesForGroupVersion ''apps/v1'']\<rparr>)
   \<and> objKind example_object = example_kind
   \<and> ClientForGroupVersionKind example_NewForConfig example_pool example_kind example_heap
     = Returned ((Some example_client, None), example_heap_after)
   \<and> ClientForResource example_NewForConfig example_pool example_disco example_object
        ''default'' example_heap (example_backend 0)
     = Returned ((None, None,
                  Some (UnableToFetch \<lparr>gvGroup = ''apps'', gvVersion = ''v1''\<rparr>
                          (Error ''unavailable''))),
                 example_heap_after,
                 \<lparr>world = 1, calls = [CallServerResourcesForGroupVersion ''apps/v1'']\<rparr>)"
proof -
  let ?pre = "[\<lparr>Name = ''pods'', Namespaced = True, Kind = ''Pod''\<rparr>]"
  let ?r = "\<lparr>Name = ''deployments/status'', Namespaced = True, Kind = ''Deployment''\<rparr>"
  let ?post = "[\<lparr>Name = ''deployments'', Namespaced = True, Kind = ''Deployment''\<rparr>]"
  let ?rl = "\<lparr>listGroupVersion = ''apps/v1'', APIResources = example_resources\<rparr>"
  let ?svc = "example_kind\<lparr>gvkKind := ''Service''\<rparr>"
  let ?e = "UnableToFetch \<lparr>gvGroup = ''apps'', gvVersion = ''v1''\<rparr> (Error ''unavailable'')"
  have svc_gvs: "GroupVersion_String (GroupVersion_of ?svc) = ''apps/v1''"
    by (simp add: GroupVersion_String_def GroupVersion_of_def example_kind_def)
  have call1: "disco_ServerResourcesForGroupVersion example_disco
      (GroupVersion_String (GroupVersion_of example_kind)) (world (example_backend 1))
     = ((Some ?rl, None), 2)"
    by (simp add: example_gvs example_disco_def example_backend_def)
  have call2: "disco_ServerResourcesForGroupVersion example_disco
      (GroupVersion_String (GroupVersion_of ?svc)) (world (example_backend 1))
     = ((Some ?rl, None), 2)"
    by (simp add: svc_gvs example_disco_def example_backend_def)
  have call0: "disco_ServerResourcesForGroupVersion example_disco
      (GroupVersion_String (GroupVersion_of example_kind)) (world (example_backend 0))
     = ((None, Some (Error ''unavailable'')), 1)"
    by (simp add: example_gvs example_disco_def example_backend_def)
  have found: "serverResourceForGroupVersionKind example_disco example_kind (example_backend 1)
     = Returned ((Some ?r, None),
                 \<lparr>world = 2, calls = [CallServerResourcesForGroupVersion ''apps/v1'']\<rparr>)"
    using serverResourceForGroupVersionKind_errors [OF call1, where rl = ?rl and pre = ?pre and x = ?r and post = ?post,
        THEN conjunct2, THEN conjunct2, THEN conjunct1]
    by (simp add: example_resources_def example_kind_def example_gvs [unfolded example_kind_def]
        example_backend_def)
  have missing: "serverResourceForGroupVersionKind example_disco ?svc (example_backend 1)
     = Returned ((None, Some (UnableToHandle ?svc)),
                 \<lparr>world = 2, calls = [CallServerResourcesForGroupVersion ''apps/v1'']\<rparr>)"
    using serverResourceForGroupVersionKind_errors [OF call2, where rl = ?rl, THEN conjunct2, THEN conjunct1]
    by (simp add: example_resources_def svc_gvs example_backend_def)
  have fetch: "serverResourceForGroupVersionKind example_disco example_kind (example_backend 0)
     = Returned ((None, Some ?e),
                 \<lparr>world = 1, calls = [CallServerResourcesForGroupVersion ''apps/v1'']\<rparr>)"
    using serverResourceForGroupVersionKind_errors [OF call0, where ?e0.0 = "Error ''unavailable''", THEN conjunct1]
    by (simp add: example_gvs example_backend_def) (simp add: GroupVersion_of_def example_kind_def)
  have k: "objKind example_object = example_kind"
    by (simp add: example_object_def)
  have through: "ClientForResource example_NewForConfig example_pool example_disco example_object
        ''default'' example_heap (example_backend 0)
     = Returned ((None, None, Some ?e), example_heap_after,
                 \<lparr>world = 1, calls = [CallServerResourcesForGroupVersion ''apps/v1'']\<rparr>)"
    using serverResourceForGroupVersionKind_errors [OF call0, where obj = example_object and NewForConfig = example_NewForConfig
        and pool = example_pool and h = example_heap and client = "Some example_client"
        and h' = "example_heap_after" and ?r1.0 = None and ?e1.0 = ?e
        and ?b1.0 = "\<lparr>world = 1, calls = [CallServerResourcesForGroupVersion ''apps/v1'']\<rparr>"
        and defNs = "''default''",
        THEN conjunct2, THEN conjunct2, THEN conjunct2, THEN conjunct2]
      k example_construct fetch
    by (simp only: simp_thms)
  from call1 found missing call0 fetch k example_construct through show ?thesis
    by (intro conjI)
qed

text \<open>
  Claim C4 as worded covers every result of the discovery call. When the call returns a nil
  list together with a nil error, \<open>serverResourceForGroupVersionKind\<close> reads
  \<^verbatim>\<open>resources.APIResources\<close> through the nil pointer: it returns neither an error nor a
  resource.
\<close>

theorem serverResourceForGroupVersionKind_nil_list_panics:
  "disco_ServerResourcesForGroupVersion example_disco_nil
      (GroupVersion_String (GroupVersion_of example_kind)) (world (example_backend 1))
     = ((None, None), 2)
   \<and> serverResourceForGroupVersionKind example_disco_nil example_kind (example_backend 1) = Panic"
  by (simp add: serverResourceForGroupVersionKind_def invoke_def example_disco_nil_def
      example_disco_def example_backend_def example_gvs)



section \<open>Delegation, invalidation, errors and freshness\<close>

text \<open>
  Claim C6. \<open>RESTClient\<close>, \<open>ServerResources\<close>, \<open>ServerPreferredResources\<close>,
  \<open>ServerPreferredNamespacedResources\<close> and \<open>ServerVersion\<close> return exactly the result
  of the same operation of the underlying client at the current world, move the world where
  that operation moves it, log the one call, and leave the cache as it was.
\<close>

theorem delegation_is_pure:
  "RESTClient c b =
     (fst (disco_RESTClient (cl c) (world b)), c,
      \<lparr>world = snd (disco_RESTClient (cl c) (world b)), calls = calls b @ [CallRESTClient]\<rparr>)
   \<and> ServerResources c b =
     (fst (disco_ServerResources (cl c) (world b)), c,
      \<lparr>world = snd (disco_ServerResources (cl c) (world b)),
       calls = calls b @ [CallServerResources]\<rparr>)
   \<and> ServerPreferredResources c b =
     (fst (disco_ServerPreferredResources (cl c) (world b)), c,
      \<lparr>world = snd (disco_ServerPreferredResources (cl c) (world b)),
       calls = calls b @ [CallServerPreferredResources]\<rparr>)
   \<and> ServerPreferredNamespacedResources c b =
     (fst (disco_ServerPreferredNamespacedResources (cl c) (world b)), c,
      \<lparr>world = snd (disco_ServerPreferredNamespacedResources (cl c) (world b)),
       calls = calls b @ [CallServerPreferredNamespacedResources]\<rparr>)
   \<and> ServerVersion c b =
     (fst (disco_ServerVersion (cl c) (world b)), c,
      \<lparr>world = snd (disco_ServerVersion (cl c) (world b)), calls = calls b @ [CallServerVersion]\<rparr>)"
  by (simp add: RESTClient_def ServerResources_def ServerPreferredResources_def
      ServerPreferredNamespacedResources_def ServerVersion_def invoke_def split: prod.splits)

text \<open>
  Claim C8. \<open>Invalidate\<close> sets \<open>servergroups\<close> to nil and both maps to the empty map,
  and leaves \<open>schema\<close> (and \<open>cl\<close>) unchanged. Hence, once \<open>OpenAPISchema\<close> has
  returned a document \<open>d\<close> with a nil error, it returns \<open>d\<close> after every sequence of
  operations, whatever the number of \<open>Invalidate\<close> calls in it, without reaching the
  underlying client.
\<close>

theorem Invalidate_keeps_schema:
  "servergroups (Invalidate c) = None
   \<and> serverresources (Invalidate c) = Map.empty
   \<and> schemas (Invalidate c) = Map.empty
   \<and> schema (Invalidate c) = schema c
   \<and> cl (Invalidate c) = cl c
   \<and> (OpenAPISchema c0 b0 = ((Some d, None), c1, b1) \<and> run xs (c1, b1) = (c2, b2)
      \<longrightarrow> OpenAPISchema c2 b2 = ((Some d, None), c2, b2))"
proof (intro conjI impI)
  assume h: "OpenAPISchema c0 b0 = ((Some d, None), c1, b1) \<and> run xs (c1, b1) = (c2, b2)"
  then have "schema c1 = Some d"
    by (blast dest: OpenAPISchema_success_caches)
  with h have "schema c2 = Some d"
    using run_schema_Some [of "(c1, b1)" d xs] by simp
  then show "OpenAPISchema c2 b2 = ((Some d, None), c2, b2)"
    by (rule OpenAPISchema_cached)
qed (simp_all add: Invalidate_def)

theorem Invalidate_keeps_schema_witness:
  "(let xs = [OpInvalidate, OpServerGroups, OpInvalidate, OpInvalidate];
        r = OpenAPISchema (NewMemcachedDiscoveryClient example_disco) (example_backend 1);
        s = run xs (snd r)
    in fst r = (Some (Document ''swagger''), None)
       \<and> OpenAPISchema (fst s) (snd s) = ((Some (Document ''swagger''), None), s))"
proof -
  let ?xs = "[OpInvalidate, OpServerGroups, OpInvalidate, OpInvalidate]"
  let ?r = "OpenAPISchema (NewMemcachedDiscoveryClient example_disco) (example_backend 1)"
  let ?s = "run ?xs (snd ?r)"
  have pre: "fst ?r = (Some (Document ''swagger''), None)"
    by (simp add: op_defs example_defs)
  then have "?r = ((Some (Document ''swagger''), None), fst (snd ?r), snd (snd ?r))"
    by (simp add: prod_eq_iff)
  moreover have "run ?xs (fst (snd ?r), snd (snd ?r)) = (fst ?s, snd ?s)"
    by (simp only: prod.collapse)
  ultimately have "OpenAPISchema (fst ?s) (snd ?s) = ((Some (Document ''swagger''), None), ?s)"
    using Invalidate_keeps_schema [where c = "NewMemcachedDiscoveryClient example_disco"
        and ?c0.0 = "NewMemcachedDiscoveryClient example_disco"
        and ?b0.0 = "example_backend 1" and d = "Document ''swagger''"
        and ?c1.0 = "fst (snd ?r)" and ?b1.0 = "snd (snd ?r)" and xs = ?xs
        and ?c2.0 = "fst ?s" and ?b2.0 = "snd ?s"]
    by (simp only: prod.collapse simp_thms)
  with pre show ?thesis
    by (simp only: Let_def simp_thms)
qed

text \<open>
  Claim C9. When the cache slot is nil and the underlying call fails with a nil value and an
  error \<open>e\<close>, each of \<open>ServerGroups\<close>, \<open>ServerResourcesForGroupVersion\<close> and
  \<open>OpenAPISchema\<close> returns \<open>(nil, e)\<close> and the slot still reads nil; after any
  operations \<open>xs\<close> other than the same operation (on the same key), the next call of
  that operation reaches the underlying client again: the log grows by that call and the
  world moves as the underlying operation moves it.
\<close>

theorem errors_are_not_cached:
  "(servergroups c = None \<and> disco_ServerGroups (cl c) (world b) = ((None, Some e), w')
      \<and> ServerGroups c b = (r, c1, b1) \<and> OpServerGroups \<notin> set xs
      \<and> run xs (c1, b1) = (c2, b2)
      \<longrightarrow> r = (None, Some e) \<and> servergroups c1 = None
          \<and> world (snd (snd (ServerGroups c2 b2))) = snd (disco_ServerGroups (cl c) (world b2))
          \<and> calls (snd (snd (ServerGroups c2 b2))) = calls b2 @ [CallServerGroups])
   \<and> (stored c gv = None
      \<and> disco_ServerResourcesForGroupVersion (cl c) gv (world b) = ((None, Some e), w')
      \<and> ServerResourcesForGroupVersion c gv b = (r', c1', b1')
      \<and> OpServerResourcesForGroupVersion gv \<notin> set xs
      \<and> run xs (c1', b1') = (c2', b2')
      \<longrightarrow> r' = (None, Some e) \<and> stored c1' gv = None
          \<and> world (snd (snd (ServerResourcesForGroupVersion c2' gv b2')))
              = snd (disco_ServerResourcesForGroupVersion (cl c) gv (world b2'))
          \<and> calls (snd (snd (ServerResourcesForGroupVersion c2' gv b2')))
              = calls b2' @ [CallServerResourcesForGroupVersion gv])
   \<and> (schema c = None \<and> disco_OpenAPISchema (cl c) (world b) = ((None, Some e), w')
      \<and> OpenAPISchema c b = (r'', c1'', b1'') \<and> OpOpenAPISchema \<notin> set xs
      \<and> run xs (c1'', b1'') = (c2'', b2'')
      \<longrightarrow> r'' = (None, Some e) \<and> schema c1'' = None
          \<and> world (snd (snd (OpenAPISchema c2'' b2'')))
              = snd (disco_OpenAPISchema (cl c) (world b2''))
          \<and> calls (snd (snd (OpenAPISchema c2'' b2''))) = calls b2'' @ [CallOpenAPISchema])"
proof (intro conjI impI)
  assume h: "servergroups c = None \<and> disco_ServerGroups (cl c) (world b) = ((None, Some e), w')
      \<and> ServerGroups c b = (r, c1, b1) \<and> OpServerGroups \<notin> set xs
      \<and> run xs (c1, b1) = (c2, b2)"
  then have first: "r = (None, Some e) \<and> c1 = c\<lparr>servergroups := None\<rparr>"
    using ServerGroups_miss [of c b None "Some e" w'] by simp
  then show "r = (None, Some e)" and c1: "servergroups c1 = None"
    by simp_all
  from h c1 have c2: "servergroups c2 = None"
    using run_servergroups_None [of xs "(c1, b1)"] by simp
  from h first have d: "cl c2 = cl c"
    using run_cl [of xs "(c1, b1)"] by simp
  obtain v err w2 where u: "disco_ServerGroups (cl c2) (world b2) = ((v, err), w2)"
    by (metis surj_pair)
  from c2 u have "ServerGroups c2 b2 =
      ((v, err), c2\<lparr>servergroups := v\<rparr>, \<lparr>world = w2, calls = calls b2 @ [CallServerGroups]\<rparr>)"
    by (rule ServerGroups_miss)
  with u d show "world (snd (snd (ServerGroups c2 b2))) = snd (disco_ServerGroups (cl c) (world b2))"
    and "calls (snd (snd (ServerGroups c2 b2))) = calls b2 @ [CallServerGroups]"
    by simp_all
next
  assume h: "stored c gv = None
      \<and> disco_ServerResourcesForGroupVersion (cl c) gv (world b) = ((None, Some e), w')
      \<and> ServerResourcesForGroupVersion c gv b = (r', c1', b1')
      \<and> OpServerResourcesForGroupVersion gv \<notin> set xs
      \<and> run xs (c1', b1') = (c2', b2')"
  then have first: "r' = (None, Some e)
      \<and> c1' = c\<lparr>serverresources := (serverresources c)(gv \<mapsto> None)\<rparr>"
    using ServerResourcesForGroupVersion_miss [of c gv b None "Some e" w'] by simp
  then show "r' = (None, Some e)" and c1: "stored c1' gv = None"
    by (simp_all add: stored_def)
  from h c1 have c2: "stored c2' gv = None"
    using run_stored_None [of gv xs "(c1', b1')"] by simp
  from h first have d: "cl c2' = cl c"
    using run_cl [of xs "(c1', b1')"] by simp
  obtain v err w2 where
    u: "disco_ServerResourcesForGroupVersion (cl c2') gv (world b2') = ((v, err), w2)"
    by (metis surj_pair)
  from c2 u have "ServerResourcesForGroupVersion c2' gv b2' =
      ((v, err), c2'\<lparr>serverresources := (serverresources c2')(gv \<mapsto> v)\<rparr>,
       \<lparr>world = w2, calls = calls b2' @ [CallServerResourcesForGroupVersion gv]\<rparr>)"
    by (rule ServerResourcesForGroupVersion_miss)
  with u d show "world (snd (snd (ServerResourcesForGroupVersion c2' gv b2')))
              = snd (disco_ServerResourcesForGroupVersion (cl c) gv (world b2'))"
    and "calls (snd (snd (ServerResourcesForGroupVersion c2' gv b2')))
              = calls b2' @ [CallServerResourcesForGroupVersion gv]"
    by simp_all
next
  assume h: "schema c = None \<and> disco_OpenAPISchema (cl c) (world b) = ((None, Some e), w')
      \<and> OpenAPISchema c b = (r'', c1'', b1'') \<and> OpOpenAPISchema \<notin> set xs
      \<and> run xs (c1'', b1'') = (c2'', b2'')"
  then have first: "r'' = (None, Some e) \<and> c1'' = c"
    using OpenAPISchema_miss [of c b None "Some e" w'] by simp
  with h show "r'' = (None, Some e)" and c1: "schema c1'' = None"
    by simp_all
  from h c1 have c2: "schema c2'' = None"
    using run_schema_None [of xs "(c1'', b1'')"] by simp
  from h first have d: "cl c2'' = cl c"
    using run_cl [of xs "(c1'', b1'')"] by simp
  obtain v err w2 where u: "disco_OpenAPISchema (cl c2'') (world b2'') = ((v, err), w2)"
    by (metis surj_pair)
  from c2 u have "OpenAPISchema c2'' b2'' =
         (if err \<noteq> None
          then ((None, err), c2'', \<lparr>world = w2, calls = calls b2'' @ [CallOpenAPISchema]\<rparr>)
          else ((v, None), c2''\<lparr>schema := v\<rparr>,
                \<lparr>world = w2, calls = calls b2'' @ [CallOpenAPISchema]\<rparr>))"
    by (rule OpenAPISchema_miss)
  with u d show "world (snd (snd (OpenAPISchema c2'' b2'')))
              = snd (disco_OpenAPISchema (cl c) (world b2''))"
    and "calls (snd (snd (OpenAPISchema c2'' b2''))) = calls b2'' @ [CallOpenAPISchema]"
    by simp_all
qed

theorem errors_are_not_cached_witness:
  "(let c = NewMemcachedDiscoveryClient example_disco; b = example_backend 0;
        e = Error ''unavailable''; xs = [OpServerVersion, OpInvalidate]
    in servergroups c = None \<and> stored c ''apps/v1'' = None \<and> schema c = None
       \<and> disco_ServerGroups (cl c) (world b) = ((None, Some e), 1)
       \<and> disco_ServerResourcesForGroupVersion (cl c) ''apps/v1'' (world b) = ((None, Some e), 1)
       \<and> disco_OpenAPISchema (cl c) (world b) = ((None, Some e), 1)
       \<and> OpServerGroups \<notin> set xs \<and> OpServerResourcesForGroupVersion ''apps/v1'' \<notin> set xs
       \<and> OpOpenAPISchema \<notin> set xs
       \<and> fst (ServerGroups c b) = (None, Some e)
       \<and> fst (ServerResourcesForGroupVersion c ''apps/v1'' b) = (None, Some e)
       \<and> fst (OpenAPISchema c b) = (None, Some e)
       \<and> (let s = run xs (snd (ServerGroups c b))
          in calls (snd (snd (ServerGroups (fst s) (snd s)))) = calls (snd s) @ [CallServerGroups])
       \<and> (let s = run xs (snd (ServerResourcesForGroupVersion c ''apps/v1'' b))
          in calls (snd (snd (ServerResourcesForGroupVersion (fst s) ''apps/v1'' (snd s))))
             = calls (snd s) @ [CallServerResourcesForGroupVersion ''apps/v1''])
       \<and> (let s = run xs (snd (OpenAPISchema c b))
          in calls (snd (snd (OpenAPISchema (fst s) (snd s)))) = calls (snd s) @ [CallOpenAPISchema]))"
proof -
  let ?c = "NewMemcachedDiscoveryClient example_disco"
  let ?b = "example_backend 0"
  let ?e = "Error ''unavailable''"
  let ?xs = "[OpServerVersion, OpInvalidate]"
  let ?gv = "''apps/v1''"
  have pre: "servergroups ?c = None" "stored ?c ?gv = None" "schema ?c = None"
    "disco_ServerGroups (cl ?c) (world ?b) = ((None, Some ?e), 1)"
    "disco_ServerResourcesForGroupVersion (cl ?c) ?gv (world ?b) = ((None, Some ?e), 1)"
    "disco_OpenAPISchema (cl ?c) (world ?b) = ((None, Some ?e), 1)"
    "OpServerGroups \<notin> set ?xs" "OpServerResourcesForGroupVersion ?gv \<notin> set ?xs"
    "OpOpenAPISchema \<notin> set ?xs"
    by (simp_all add: example_defs Invalidate_def)
  let ?r1 = "ServerGroups ?c ?b"
  let ?s1 = "run ?xs (snd ?r1)"
  let ?r2 = "ServerResourcesForGroupVersion ?c ?gv ?b"
  let ?s2 = "run ?xs (snd ?r2)"
  let ?r3 = "OpenAPISchema ?c ?b"
  let ?s3 = "run ?xs (snd ?r3)"
  note inst = errors_are_not_cached [where c = ?c and b = ?b and e = ?e and w' = 1 and xs = ?xs
      and gv = ?gv
      and r = "fst ?r1" and ?c1.0 = "fst (snd ?r1)" and ?b1.0 = "snd (snd ?r1)"
      and ?c2.0 = "fst ?s1" and ?b2.0 = "snd ?s1"
      and r' = "fst ?r2" and c1' = "fst (snd ?r2)" and b1' = "snd (snd ?r2)"
      and c2' = "fst ?s2" and b2' = "snd ?s2"
      and r'' = "fst ?r3" and c1'' = "fst (snd ?r3)" and b1'' = "snd (snd ?r3)"
      and c2'' = "fst ?s3" and b2'' = "snd ?s3"]
  from inst pre have post:
    "fst ?r1 = (None, Some ?e)"
    "calls (snd (snd (ServerGroups (fst ?s1) (snd ?s1)))) = calls (snd ?s1) @ [CallServerGroups]"
    "fst ?r2 = (None, Some ?e)"
    "calls (snd (snd (ServerResourcesForGroupVersion (fst ?s2) ?gv (snd ?s2))))
       = calls (snd ?s2) @ [CallServerResourcesForGroupVersion ?gv]"
    "fst ?r3 = (None, Some ?e)"
    "calls (snd (snd (OpenAPISchema (fst ?s3) (snd ?s3)))) = calls (snd ?s3) @ [CallOpenAPISchema]"
    by (simp_all only: prod.collapse simp_thms)
  from pre post show ?thesis
    by (simp only: Let_def simp_thms)
qed

text \<open>
  Claim C10. \<open>Fresh\<close> is true of every client state: of any record of the cache, of a
  client just built, of a client just invalidated, and after any sequence of operations.
\<close>

theorem Fresh_always_true:
  "Fresh c \<and> Fresh (NewMemcachedDiscoveryClient d) \<and> Fresh (Invalidate c)
   \<and> Fresh (fst (run xs (c, b)))"
  by (simp add: Fresh_def)

end
